theory Spec2Isabelle
  imports Complex_Main "HOL-Library.Multiset" "HOL-Library.AList"
begin

section \<open>Conventions of the embedding\<close>

text \<open>
  The Python sources are embedded function by function, keeping their names.  Python
  \<^verbatim>\<open>int\<close> is \<^typ>\<open>int\<close>.  A Python \<^verbatim>\<open>float\<close> is a \<^typ>\<open>real\<close>, and a float
  operation is modelled in two ways.  In the idealised model every literal and every
  operation is exact, and \<^verbatim>\<open>round(x, n)\<close> is \<open>py_round\<close>: rounding of the real \<open>x\<close> to
  \<open>n\<close> decimals, ties going to the even neighbour.  That is not float arithmetic: it
  differs from it where an exact result is a decimal tie (\<open>49.725\<close> rounds to 49.72
  here and to 49.73 in Python, whose double product lies above the tie), and it keeps
  sums of rounded amounts on the grid of cents.  The idealised model serves the layout,
  the edges, the carbon comparison and the worked example.  Where the rounding itself
  is the subject, the cost calculator is embedded with the float operations as
  parameters, see the section on it below.
\<close>

definition round_half_even :: "real \<Rightarrow> int" where
  "round_half_even v =
     (let n = \<lfloor>v\<rfloor>; r = v - of_int n
      in if r < 1 / 2 then n
         else if 1 / 2 < r then n + 1
         else if even n then n else n + 1)"

definition py_round :: "real \<Rightarrow> nat \<Rightarrow> real" where
  "py_round v nd = of_int (round_half_even (v * 10 ^ nd)) / 10 ^ nd"

section \<open>The component catalog (\<^verbatim>\<open>app/data/components_data.py\<close>)\<close>

text \<open>
  A catalog entry is a dictionary with the keys \<^verbatim>\<open>id\<close>, \<^verbatim>\<open>name\<close>, \<^verbatim>\<open>category\<close>,
  \<^verbatim>\<open>pricing_tier\<close>, \<^verbatim>\<open>base_cost\<close> and \<^verbatim>\<open>description\<close>.  The description is
  free text that no function reads; the record leaves it out.  The seventy entries are
  listed in the order of the source.
\<close>

record Component =
  comp_id :: string
  comp_name :: string
  comp_category :: string
  pricing_tier :: string
  base_cost :: int

definition COMPONENTS :: "Component list" where
  "COMPONENTS = [
    \<lparr>comp_id = ''nextjs'', comp_name = ''Next.js'', comp_category = ''frontend'',
    pricing_tier = ''free'', base_cost = 0\<rparr>,
    \<lparr>comp_id = ''react'', comp_name = ''React'', comp_category = ''frontend'',
    pricing_tier = ''free'', base_cost = 0\<rparr>,
    \<lparr>comp_id = ''vue'', comp_name = ''Vue.js'', comp_category = ''frontend'',
    pricing_tier = ''free'', base_cost = 0\<rparr>,
    \<lparr>comp_id = ''angular'', comp_name = ''Angular'', comp_category = ''frontend'',
    pricing_tier = ''free'', base_cost = 0\<rparr>,
    \<lparr>comp_id = ''svelte'', comp_name = ''Svelte'', comp_category = ''frontend'',
    pricing_tier = ''free'', base_cost = 0\<rparr>,
    \<lparr>comp_id = ''fastapi'', comp_name = ''FastAPI'', comp_category = ''backend'',
    pricing_tier = ''free'', base_cost = 0\<rparr>,
    \<lparr>comp_id = ''django'', comp_name = ''Django'', comp_category = ''backend'',
    pricing_tier = ''free'', base_cost = 0\<rparr>,
    \<lparr>comp_id = ''flask'', comp_name = ''Flask'', comp_category = ''backend'',
    pricing_tier = ''free'', base_cost = 0\<rparr>,
    \<lparr>comp_id = ''nodejs'', comp_name = ''Node.js'', comp_category = ''backend'',
    pricing_tier = ''free'', base_cost = 0\<rparr>,
    \<lparr>comp_id = ''express'', comp_name = ''Express.js'', comp_category = ''backend'',
    pricing_tier = ''free'', base_cost = 0\<rparr>,
    \<lparr>comp_id = ''nestjs'', comp_name = ''NestJS'', comp_category = ''backend'',
    pricing_tier = ''free'', base_cost = 0\<rparr>,
    \<lparr>comp_id = ''springboot'', comp_name = ''Spring Boot'', comp_category = ''backend'',
    pricing_tier = ''free'', base_cost = 0\<rparr>,
    \<lparr>comp_id = ''golang'', comp_name = ''Go/Gin'', comp_category = ''backend'',
    pricing_tier = ''free'', base_cost = 0\<rparr>,
    \<lparr>comp_id = ''postgresql'', comp_name = ''PostgreSQL'', comp_category = ''database'',
    pricing_tier = ''managed'', base_cost = 25\<rparr>,
    \<lparr>comp_id = ''mongodb'', comp_name = ''MongoDB'', comp_category = ''database'',
    pricing_tier = ''managed'', base_cost = 25\<rparr>,
    \<lparr>comp_id = ''mysql'', comp_name = ''MySQL'', comp_category = ''database'',
    pricing_tier = ''managed'', base_cost = 20\<rparr>,
    \<lparr>comp_id = ''redis'', comp_name = ''Redis'', comp_category = ''database'',
    pricing_tier = ''managed'', base_cost = 15\<rparr>,
    \<lparr>comp_id = ''elasticsearch'', comp_name = ''Elasticsearch'', comp_category = ''database'',
    pricing_tier = ''managed'', base_cost = 40\<rparr>,
    \<lparr>comp_id = ''cassandra'', comp_name = ''Cassandra'', comp_category = ''database'',
    pricing_tier = ''managed'', base_cost = 35\<rparr>,
    \<lparr>comp_id = ''vercel'', comp_name = ''Vercel'', comp_category = ''hosting'',
    pricing_tier = ''serverless'', base_cost = 20\<rparr>,
    \<lparr>comp_id = ''netlify'', comp_name = ''Netlify'', comp_category = ''hosting'',
    pricing_tier = ''serverless'', base_cost = 19\<rparr>,
    \<lparr>comp_id = ''aws_ec2'', comp_name = ''AWS EC2'', comp_category = ''hosting'',
    pricing_tier = ''compute'', base_cost = 50\<rparr>,
    \<lparr>comp_id = ''aws_lambda'', comp_name = ''AWS Lambda'', comp_category = ''hosting'',
    pricing_tier = ''serverless'', base_cost = 10\<rparr>,
    \<lparr>comp_id = ''gcp_compute'', comp_name = ''GCP Compute Engine'', comp_category = ''hosting'',
    pricing_tier = ''compute'', base_cost = 48\<rparr>,
    \<lparr>comp_id = ''gcp_cloud_run'', comp_name = ''Google Cloud Run'', comp_category = ''hosting'',
    pricing_tier = ''serverless'', base_cost = 12\<rparr>,
    \<lparr>comp_id = ''azure_vm'', comp_name = ''Azure VM'', comp_category = ''hosting'',
    pricing_tier = ''compute'', base_cost = 52\<rparr>,
    \<lparr>comp_id = ''heroku'', comp_name = ''Heroku'', comp_category = ''hosting'',
    pricing_tier = ''platform'', base_cost = 25\<rparr>,
    \<lparr>comp_id = ''digitalocean'', comp_name = ''DigitalOcean'', comp_category = ''hosting'',
    pricing_tier = ''compute'', base_cost = 30\<rparr>,
    \<lparr>comp_id = ''aws_s3'', comp_name = ''AWS S3'', comp_category = ''storage'',
    pricing_tier = ''object_storage'', base_cost = 5\<rparr>,
    \<lparr>comp_id = ''gcp_storage'', comp_name = ''Google Cloud Storage'', comp_category = ''storage'',
    pricing_tier = ''object_storage'', base_cost = 5\<rparr>,
    \<lparr>comp_id = ''azure_blob'', comp_name = ''Azure Blob Storage'', comp_category = ''storage'',
    pricing_tier = ''object_storage'', base_cost = 5\<rparr>,
    \<lparr>comp_id = ''cloudinary'', comp_name = ''Cloudinary'', comp_category = ''storage'',
    pricing_tier = ''media_storage'', base_cost = 15\<rparr>,
    \<lparr>comp_id = ''nginx'', comp_name = ''Nginx'', comp_category = ''infrastructure'',
    pricing_tier = ''free'', base_cost = 0\<rparr>,
    \<lparr>comp_id = ''kong'', comp_name = ''Kong'', comp_category = ''infrastructure'',
    pricing_tier = ''enterprise'', base_cost = 50\<rparr>,
    \<lparr>comp_id = ''aws_alb'', comp_name = ''AWS Application Load Balancer'', comp_category = ''infrastructure'',
    pricing_tier = ''managed'', base_cost = 25\<rparr>,
    \<lparr>comp_id = ''cloudflare'', comp_name = ''Cloudflare'', comp_category = ''infrastructure'',
    pricing_tier = ''cdn'', base_cost = 20\<rparr>,
    \<lparr>comp_id = ''auth0'', comp_name = ''Auth0'', comp_category = ''authentication'',
    pricing_tier = ''managed'', base_cost = 30\<rparr>,
    \<lparr>comp_id = ''firebase_auth'', comp_name = ''Firebase Auth'', comp_category = ''authentication'',
    pricing_tier = ''managed'', base_cost = 10\<rparr>,
    \<lparr>comp_id = ''cognito'', comp_name = ''AWS Cognito'', comp_category = ''authentication'',
    pricing_tier = ''managed'', base_cost = 15\<rparr>,
    \<lparr>comp_id = ''clerk'', comp_name = ''Clerk'', comp_category = ''authentication'',
    pricing_tier = ''managed'', base_cost = 25\<rparr>,
    \<lparr>comp_id = ''openai'', comp_name = ''OpenAI API'', comp_category = ''ai_ml'',
    pricing_tier = ''api'', base_cost = 50\<rparr>,
    \<lparr>comp_id = ''gemini'', comp_name = ''Google Gemini'', comp_category = ''ai_ml'',
    pricing_tier = ''api'', base_cost = 30\<rparr>,
    \<lparr>comp_id = ''anthropic'', comp_name = ''Anthropic Claude'', comp_category = ''ai_ml'',
    pricing_tier = ''api'', base_cost = 45\<rparr>,
    \<lparr>comp_id = ''huggingface'', comp_name = ''Hugging Face'', comp_category = ''ai_ml'',
    pricing_tier = ''api'', base_cost = 25\<rparr>,
    \<lparr>comp_id = ''aws_sagemaker'', comp_name = ''AWS SageMaker'', comp_category = ''ai_ml'',
    pricing_tier = ''managed'', base_cost = 100\<rparr>,
    \<lparr>comp_id = ''rabbitmq'', comp_name = ''RabbitMQ'', comp_category = ''messaging'',
    pricing_tier = ''managed'', base_cost = 20\<rparr>,
    \<lparr>comp_id = ''kafka'', comp_name = ''Apache Kafka'', comp_category = ''messaging'',
    pricing_tier = ''managed'', base_cost = 40\<rparr>,
    \<lparr>comp_id = ''aws_sqs'', comp_name = ''AWS SQS'', comp_category = ''messaging'',
    pricing_tier = ''managed'', base_cost = 10\<rparr>,
    \<lparr>comp_id = ''pubsub'', comp_name = ''Google Pub/Sub'', comp_category = ''messaging'',
    pricing_tier = ''managed'', base_cost = 12\<rparr>,
    \<lparr>comp_id = ''datadog'', comp_name = ''Datadog'', comp_category = ''monitoring'',
    pricing_tier = ''enterprise'', base_cost = 60\<rparr>,
    \<lparr>comp_id = ''newrelic'', comp_name = ''New Relic'', comp_category = ''monitoring'',
    pricing_tier = ''enterprise'', base_cost = 55\<rparr>,
    \<lparr>comp_id = ''prometheus'', comp_name = ''Prometheus'', comp_category = ''monitoring'',
    pricing_tier = ''free'', base_cost = 0\<rparr>,
    \<lparr>comp_id = ''grafana'', comp_name = ''Grafana'', comp_category = ''monitoring'',
    pricing_tier = ''free'', base_cost = 0\<rparr>,
    \<lparr>comp_id = ''google_analytics'', comp_name = ''Google Analytics'', comp_category = ''analytics'',
    pricing_tier = ''free'', base_cost = 0\<rparr>,
    \<lparr>comp_id = ''mixpanel'', comp_name = ''Mixpanel'', comp_category = ''analytics'',
    pricing_tier = ''managed'', base_cost = 35\<rparr>,
    \<lparr>comp_id = ''amplitude'', comp_name = ''Amplitude'', comp_category = ''analytics'',
    pricing_tier = ''managed'', base_cost = 40\<rparr>,
    \<lparr>comp_id = ''github_actions'', comp_name = ''GitHub Actions'', comp_category = ''cicd'',
    pricing_tier = ''managed'', base_cost = 10\<rparr>,
    \<lparr>comp_id = ''jenkins'', comp_name = ''Jenkins'', comp_category = ''cicd'',
    pricing_tier = ''free'', base_cost = 0\<rparr>,
    \<lparr>comp_id = ''circleci'', comp_name = ''CircleCI'', comp_category = ''cicd'',
    pricing_tier = ''managed'', base_cost = 15\<rparr>,
    \<lparr>comp_id = ''gitlab_ci'', comp_name = ''GitLab CI'', comp_category = ''cicd'',
    pricing_tier = ''managed'', base_cost = 12\<rparr>,
    \<lparr>comp_id = ''sendgrid'', comp_name = ''SendGrid'', comp_category = ''email'',
    pricing_tier = ''managed'', base_cost = 20\<rparr>,
    \<lparr>comp_id = ''mailgun'', comp_name = ''Mailgun'', comp_category = ''email'',
    pricing_tier = ''managed'', base_cost = 18\<rparr>,
    \<lparr>comp_id = ''ses'', comp_name = ''AWS SES'', comp_category = ''email'',
    pricing_tier = ''managed'', base_cost = 5\<rparr>,
    \<lparr>comp_id = ''stripe'', comp_name = ''Stripe'', comp_category = ''payment'',
    pricing_tier = ''transaction_fee'', base_cost = 0\<rparr>,
    \<lparr>comp_id = ''paypal'', comp_name = ''PayPal'', comp_category = ''payment'',
    pricing_tier = ''transaction_fee'', base_cost = 0\<rparr>,
    \<lparr>comp_id = ''square'', comp_name = ''Square'', comp_category = ''payment'',
    pricing_tier = ''transaction_fee'', base_cost = 0\<rparr>,
    \<lparr>comp_id = ''algolia'', comp_name = ''Algolia'', comp_category = ''search'',
    pricing_tier = ''managed'', base_cost = 30\<rparr>,
    \<lparr>comp_id = ''meilisearch'', comp_name = ''Meilisearch'', comp_category = ''search'',
    pricing_tier = ''free'', base_cost = 0\<rparr>,
    \<lparr>comp_id = ''kubernetes'', comp_name = ''Kubernetes'', comp_category = ''infrastructure'',
    pricing_tier = ''managed'', base_cost = 70\<rparr>,
    \<lparr>comp_id = ''docker'', comp_name = ''Docker'', comp_category = ''infrastructure'',
    pricing_tier = ''free'', base_cost = 0\<rparr>]"

text \<open>\<^verbatim>\<open>get_component_by_id\<close>: the first entry with that identifier, or \<^verbatim>\<open>None\<close>.\<close>

definition get_component_by_id :: "string \<Rightarrow> Component option" where
  "get_component_by_id component_id = find (\<lambda>c. comp_id c = component_id) COMPONENTS"

section \<open>The request models (\<^verbatim>\<open>app/models/architecture.py\<close>)\<close>

record Scope =
  users :: int
  trafficLevel :: int
  dataVolumeGB :: real
  regions :: int
  availability :: real

record CostBreakdown =
  cb_category :: string
  cb_component :: string
  cb_componentId :: string
  baseCost :: real
  scaledCost :: real

record CostEstimate =
  total :: real
  breakdown :: "CostBreakdown list"

section \<open>The cost calculator (\<^verbatim>\<open>app/services/cost_calculator.py\<close>)\<close>

definition TRAFFIC_MULTIPLIERS :: "(int \<times> real) list" where
  "TRAFFIC_MULTIPLIERS = [(1, 1.0), (2, 1.5), (3, 2.0), (4, 3.0), (5, 5.0)]"

text \<open>The last tier of \<^verbatim>\<open>USER_TIERS\<close> has the threshold \<^verbatim>\<open>float('inf')\<close>.\<close>

datatype threshold = Fin int | Inf

fun le_threshold :: "int \<Rightarrow> threshold \<Rightarrow> bool" where
  "le_threshold u (Fin t) = (u \<le> t)"
| "le_threshold u Inf = True"

definition USER_TIERS :: "(threshold \<times> real) list" where
  "USER_TIERS = [(Fin 1000, 1.0), (Fin 10000, 1.5), (Fin 100000, 2.5),
                 (Fin 1000000, 4.0), (Inf, 6.0)]"

definition DATA_COST_PER_GB :: real where
  "DATA_COST_PER_GB = 0.023"

definition REGION_MULTIPLIERS :: "(int \<times> real) list" where
  "REGION_MULTIPLIERS = [(1, 1.0), (2, 1.3), (3, 1.5), (4, 1.8)]"

definition AVAILABILITY_MULTIPLIERS :: "(real \<times> real) list" where
  "AVAILABILITY_MULTIPLIERS =
     [(99.0, 1.0), (99.9, 1.2), (99.95, 1.4), (99.99, 1.7), (99.999, 2.5)]"

text \<open>
  \<^verbatim>\<open>for threshold, multiplier in tiers: if users <= threshold: return multiplier\<close>,
  and the value after the loop when no tier matched.
\<close>

fun first_tier :: "int \<Rightarrow> (threshold \<times> real) list \<Rightarrow> real \<Rightarrow> real" where
  "first_tier u [] d = d"
| "first_tier u ((t, m) # ts) d = (if le_threshold u t then m else first_tier u ts d)"

definition get_user_multiplier :: "int \<Rightarrow> real" where
  "get_user_multiplier u = first_tier u USER_TIERS 6.0"

definition get_traffic_multiplier :: "int \<Rightarrow> real" where
  "get_traffic_multiplier traffic_level =
     (case map_of TRAFFIC_MULTIPLIERS traffic_level of Some m \<Rightarrow> m | None \<Rightarrow> 2.0)"

definition get_region_multiplier :: "int \<Rightarrow> real" where
  "get_region_multiplier rs =
     (if 4 \<le> rs then 1.8
      else case map_of REGION_MULTIPLIERS rs of Some m \<Rightarrow> m | None \<Rightarrow> 1.0)"

fun first_sla :: "real \<Rightarrow> (real \<times> real) list \<Rightarrow> real \<Rightarrow> real" where
  "first_sla a [] d = d"
| "first_sla a ((tier, m) # ts) d = (if a \<le> tier then m else first_sla a ts d)"

definition get_availability_multiplier :: "real \<Rightarrow> real" where
  "get_availability_multiplier a = first_sla a AVAILABILITY_MULTIPLIERS 2.5"

definition calculate_component_cost :: "string \<Rightarrow> Scope \<Rightarrow> real \<times> real" where
  "calculate_component_cost component_id scope =
     (case get_component_by_id component_id of
        None \<Rightarrow> (0.0, 0.0)
      | Some component \<Rightarrow>
          if base_cost component = 0 then (0.0, 0.0)
          else
            let base = of_int (base_cost component);
                user_mult = get_user_multiplier (users scope);
                traffic_mult = get_traffic_multiplier (trafficLevel scope);
                region_mult = get_region_multiplier (regions scope);
                availability_mult = get_availability_multiplier (availability scope);
                cat = comp_category component;
                scaled_cost =
                  (if cat \<in> set [''database'', ''storage''] then
                     base * user_mult * traffic_mult * region_mult * availability_mult
                       + dataVolumeGB scope * DATA_COST_PER_GB
                   else if cat \<in> set [''hosting'', ''infrastructure''] then
                     base * user_mult * traffic_mult * region_mult * availability_mult
                   else if cat \<in> set [''ai_ml'', ''search''] then
                     base * user_mult * traffic_mult
                   else if cat \<in> set [''monitoring'', ''analytics''] then
                     base * region_mult * availability_mult
                   else base * user_mult * traffic_mult)
            in (base, py_round scaled_cost 2))"

text \<open>
  The loop of \<^verbatim>\<open>calculate_architecture_cost\<close>: the state is the breakdown built so
  far and the running total; an identifier absent from the catalog is skipped.
\<close>

fun cost_loop :: "Scope \<Rightarrow> string list \<Rightarrow> CostBreakdown list \<times> real \<Rightarrow> CostBreakdown list \<times> real" where
  "cost_loop scope [] st = st"
| "cost_loop scope (component_id # rest) (bd, tot) =
     (case get_component_by_id component_id of
        None \<Rightarrow> cost_loop scope rest (bd, tot)
      | Some component \<Rightarrow>
          (case calculate_component_cost component_id scope of
             (base, scaled) \<Rightarrow>
               cost_loop scope rest
                 (bd @ [\<lparr>cb_category = comp_category component,
                         cb_component = comp_name component,
                         cb_componentId = component_id,
                         baseCost = base, scaledCost = scaled\<rparr>],
                  tot + scaled)))"

definition calculate_architecture_cost :: "string list \<Rightarrow> Scope \<Rightarrow> CostEstimate" where
  "calculate_architecture_cost component_ids scope =
     (case cost_loop scope component_ids ([], 0.0) of
        (bd, tot) \<Rightarrow> \<lparr>total = py_round tot 2, breakdown = bd\<rparr>)"

section \<open>The cost calculator, with the float operations as parameters\<close>

text \<open>
  The amounts of money are Python floats, and the results of float arithmetic differ
  from those of exact arithmetic: \<^verbatim>\<open>49.73 + 149.17\<close> is \<^verbatim>\<open>198.89999999999998\<close>.  The
  functions of the cost calculator are therefore embedded a second time, line by line
  as above, with the four float operations they use as parameters: \<open>fl\<close> gives the
  float of a literal or of an integer, \<open>fadd\<close> and \<open>fmul\<close> are float addition and
  multiplication, and \<open>fround\<close> is \<^verbatim>\<open>round(x, n)\<close> on a float.  The values of a scope
  are floats already.  Comparisons of floats and of integers are exact.
\<close>

record float_ops =
  fl :: "real \<Rightarrow> real"
  fadd :: "real \<Rightarrow> real \<Rightarrow> real"
  fmul :: "real \<Rightarrow> real \<Rightarrow> real"
  fround :: "real \<Rightarrow> nat \<Rightarrow> real"

definition get_user_multiplier_fl :: "float_ops \<Rightarrow> int \<Rightarrow> real" where
  "get_user_multiplier_fl ops u =
     first_tier u (map (\<lambda>(t, m). (t, fl ops m)) USER_TIERS) (fl ops 6.0)"

definition get_traffic_multiplier_fl :: "float_ops \<Rightarrow> int \<Rightarrow> real" where
  "get_traffic_multiplier_fl ops traffic_level =
     (case map_of TRAFFIC_MULTIPLIERS traffic_level of
        Some m \<Rightarrow> fl ops m | None \<Rightarrow> fl ops 2.0)"

definition get_region_multiplier_fl :: "float_ops \<Rightarrow> int \<Rightarrow> real" where
  "get_region_multiplier_fl ops rs =
     (if 4 \<le> rs then fl ops 1.8
      else case map_of REGION_MULTIPLIERS rs of Some m \<Rightarrow> fl ops m | None \<Rightarrow> fl ops 1.0)"

definition get_availability_multiplier_fl :: "float_ops \<Rightarrow> real \<Rightarrow> real" where
  "get_availability_multiplier_fl ops a =
     first_sla a (map (\<lambda>(t, m). (fl ops t, fl ops m)) AVAILABILITY_MULTIPLIERS) (fl ops 2.5)"

definition calculate_component_cost_fl :: "float_ops \<Rightarrow> string \<Rightarrow> Scope \<Rightarrow> real \<times> real" where
  "calculate_component_cost_fl ops component_id scope =
     (case get_component_by_id component_id of
        None \<Rightarrow> (fl ops 0.0, fl ops 0.0)
      | Some component \<Rightarrow>
          if base_cost component = 0 then (fl ops 0.0, fl ops 0.0)
          else
            let base = fl ops (of_int (base_cost component));
                user_mult = get_user_multiplier_fl ops (users scope);
                traffic_mult = get_traffic_multiplier_fl ops (trafficLevel scope);
                region_mult = get_region_multiplier_fl ops (regions scope);
                availability_mult = get_availability_multiplier_fl ops (availability scope);
                cat = comp_category component;
                scaled_cost =
                  (if cat \<in> set [''database'', ''storage''] then
                     fadd ops
                       (fmul ops (fmul ops (fmul ops (fmul ops base user_mult) traffic_mult)
                                    region_mult) availability_mult)
                       (fmul ops (dataVolumeGB scope) (fl ops DATA_COST_PER_GB))
                   else if cat \<in> set [''hosting'', ''infrastructure''] then
                     fmul ops (fmul ops (fmul ops (fmul ops base user_mult) traffic_mult)
                                 region_mult) availability_mult
                   else if cat \<in> set [''ai_ml'', ''search''] then
                     fmul ops (fmul ops base user_mult) traffic_mult
                   else if cat \<in> set [''monitoring'', ''analytics''] then
                     fmul ops (fmul ops base region_mult) availability_mult
                   else fmul ops (fmul ops base user_mult) traffic_mult)
            in (base, fround ops scaled_cost 2))"

fun cost_loop_fl ::
  "float_ops \<Rightarrow> Scope \<Rightarrow> string list \<Rightarrow> CostBreakdown list \<times> real
   \<Rightarrow> CostBreakdown list \<times> real" where
  "cost_loop_fl ops scope [] st = st"
| "cost_loop_fl ops scope (component_id # rest) (bd, tot) =
     (case get_component_by_id component_id of
        None \<Rightarrow> cost_loop_fl ops scope rest (bd, tot)
      | Some component \<Rightarrow>
          (case calculate_component_cost_fl ops component_id scope of
             (base, scaled) \<Rightarrow>
               cost_loop_fl ops scope rest
                 (bd @ [\<lparr>cb_category = comp_category component,
                         cb_component = comp_name component,
                         cb_componentId = component_id,
                         baseCost = base, scaledCost = scaled\<rparr>],
                  fadd ops tot scaled)))"

definition calculate_architecture_cost_fl :: "float_ops \<Rightarrow> string list \<Rightarrow> Scope \<Rightarrow> CostEstimate" where
  "calculate_architecture_cost_fl ops component_ids scope =
     (case cost_loop_fl ops scope component_ids ([], fl ops 0.0) of
        (bd, tot) \<Rightarrow> \<lparr>total = fround ops tot 2, breakdown = bd\<rparr>)"

subsection \<open>Two instances\<close>

text \<open>
  IEEE 754 binary64 with rounding to the nearest double, ties to the even significand:
  \<open>binary64 v\<close> is the double nearest to the real \<open>v\<close>.  A double has a significand
  of 53 bits, so for \<open>2 ^ e \<le> \<bar>v\<bar> < 2 ^ (e + 1)\<close> the doubles around \<open>v\<close> are the
  multiples of \<open>2 ^ (e - 52)\<close>.  The exponent range is taken to be unbounded (no
  overflow to infinity, no subnormal numbers): the amounts at hand are far from both
  ends.  A float operation is the exact operation followed by \<open>binary64\<close>; Python's
  \<^verbatim>\<open>round(x, n)\<close> rounds the exact value of the double \<open>x\<close> to \<open>n\<close> decimals, ties
  to even, and returns the double nearest to that decimal.
\<close>

fun bit_length :: "nat \<Rightarrow> nat" where
  "bit_length n = (if n = 0 then 0 else Suc (bit_length (n div 2)))"

declare bit_length.simps [simp del]

definition pow2 :: "int \<Rightarrow> real" where
  "pow2 e = (if 0 \<le> e then 2 ^ nat e else 1 / 2 ^ nat (- e))"

definition binary_exponent :: "real \<Rightarrow> int" where
  "binary_exponent v =
     (if 1 \<le> v then int (bit_length (nat \<lfloor>v\<rfloor>)) - 1
      else - int (bit_length (nat (\<lceil>1 / v\<rceil> - 1))))"

definition binary64 :: "real \<Rightarrow> real" where
  "binary64 v =
     (if v = 0 then 0
      else let u = pow2 (binary_exponent \<bar>v\<bar> - 52)
           in sgn v * of_int (round_half_even (\<bar>v\<bar> / u)) * u)"

definition double_add :: "real \<Rightarrow> real \<Rightarrow> real" where
  "double_add a b = binary64 (a + b)"

definition double_mul :: "real \<Rightarrow> real \<Rightarrow> real" where
  "double_mul a b = binary64 (a * b)"

definition double_round :: "real \<Rightarrow> nat \<Rightarrow> real" where
  "double_round v nd = binary64 (py_round v nd)"

definition double_ops :: float_ops where
  "double_ops = \<lparr>fl = binary64, fadd = double_add, fmul = double_mul, fround = double_round\<rparr>"

text \<open>Exact arithmetic, the idealisation of the sections above.\<close>

definition exact_ops :: float_ops where
  "exact_ops = \<lparr>fl = (\<lambda>v. v), fadd = (+), fmul = (*), fround = py_round\<rparr>"

text \<open>A scope in which the four multipliers are 1.5, 1.5, 1.3 and 1.7.\<close>

definition tier_scope :: Scope where
  "tier_scope = \<lparr>users = 10000, trafficLevel = 2, dataVolumeGB = 100, regions = 2,
                  availability = binary64 99.99\<rparr>"

section \<open>Errors\<close>

text \<open>
  The exceptions the modelled code can raise: a subscript with a missing key, a
  \<^verbatim>\<open>Field(ge=1, le=5)\<close> constraint that fails, and \<^verbatim>\<open>math.log10\<close> outside its
  domain.  A function that can raise returns \<open>py_error + result\<close>.
\<close>

datatype py_error = KeyError | ValidationError | ValueError

section \<open>Construction of a \<^verbatim>\<open>Scope\<close>\<close>

text \<open>
  \<^verbatim>\<open>class Scope(BaseModel)\<close> declares
  \<^verbatim>\<open>users: int = 1000\<close>, \<^verbatim>\<open>trafficLevel: int = Field(default=3, ge=1, le=5)\<close>,
  \<^verbatim>\<open>dataVolumeGB: float = 100.0\<close>, \<^verbatim>\<open>regions: int = 1\<close>,
  \<^verbatim>\<open>availability: float = 99.9\<close>.  \<open>Scope_init\<close> is the constructor: an argument
  the caller omits is \<open>None\<close>.
\<close>

definition Scope_init ::
  "int option \<Rightarrow> int option \<Rightarrow> real option \<Rightarrow> int option \<Rightarrow> real option \<Rightarrow> py_error + Scope" where
  "Scope_init u t d r a =
     (case t of
        Some lvl \<Rightarrow>
          if 1 \<le> lvl \<and> lvl \<le> 5 then
            Inr \<lparr>users = (case u of Some v \<Rightarrow> v | None \<Rightarrow> 1000),
                 trafficLevel = lvl,
                 dataVolumeGB = (case d of Some v \<Rightarrow> v | None \<Rightarrow> 100.0),
                 regions = (case r of Some v \<Rightarrow> v | None \<Rightarrow> 1),
                 availability = (case a of Some v \<Rightarrow> v | None \<Rightarrow> 99.9)\<rparr>
          else Inl ValidationError
      | None \<Rightarrow>
          Inr \<lparr>users = (case u of Some v \<Rightarrow> v | None \<Rightarrow> 1000),
               trafficLevel = 3,
               dataVolumeGB = (case d of Some v \<Rightarrow> v | None \<Rightarrow> 100.0),
               regions = (case r of Some v \<Rightarrow> v | None \<Rightarrow> 1),
               availability = (case a of Some v \<Rightarrow> v | None \<Rightarrow> 99.9)\<rparr>)"

section \<open>The graph models\<close>

text \<open>
  \<^verbatim>\<open>NodeData.config\<close> is always the empty dictionary here and is left out.  The field
  \<^verbatim>\<open>id\<close> of a node and of an edge is \<open>node_id\<close> and \<open>edge_id\<close>, the coordinates
  \<^verbatim>\<open>x\<close> and \<^verbatim>\<open>y\<close> are \<open>pos_x\<close> and \<open>pos_y\<close>.
\<close>

record NodeData =
  label :: string
  componentId :: string
  category :: string
  icon :: "string option"
  color :: "string option"

record NodePosition =
  pos_x :: real
  pos_y :: real

record Node =
  node_id :: string
  node_type :: string
  position :: NodePosition
  data :: NodeData

datatype Handle = Top | Right | Bottom | Left

record Edge =
  edge_id :: string
  source :: string
  target :: string
  sourceHandle :: "Handle option"
  targetHandle :: "Handle option"
  edge_type :: string

record ArchitectureJson =
  nodes :: "Node list"
  edges :: "Edge list"
  scope :: Scope
  costEstimate :: "CostEstimate option"
  timestamp :: "int option"

section \<open>The connection rules (\<^verbatim>\<open>app/services/connection_validator.py\<close>)\<close>

text \<open>
  \<^verbatim>\<open>VALID_CONNECTIONS\<close> is a set literal; the pair (backend, messaging) is written
  twice in it.
\<close>

definition VALID_CONNECTIONS :: "(string \<times> string) set" where
  "VALID_CONNECTIONS = set [
     (''frontend'', ''backend''),
     (''frontend'', ''authentication''),
     (''frontend'', ''hosting''),
     (''frontend'', ''infrastructure''),
     (''backend'', ''database''),
     (''backend'', ''storage''),
     (''backend'', ''authentication''),
     (''backend'', ''ai_ml''),
     (''backend'', ''messaging''),
     (''backend'', ''email''),
     (''backend'', ''payment''),
     (''backend'', ''search''),
     (''backend'', ''hosting''),
     (''infrastructure'', ''frontend''),
     (''infrastructure'', ''backend''),
     (''infrastructure'', ''database''),
     (''backend'', ''backend''),
     (''hosting'', ''backend''),
     (''hosting'', ''frontend''),
     (''database'', ''storage''),
     (''monitoring'', ''frontend''),
     (''monitoring'', ''backend''),
     (''monitoring'', ''database''),
     (''monitoring'', ''infrastructure''),
     (''monitoring'', ''hosting''),
     (''analytics'', ''frontend''),
     (''analytics'', ''backend''),
     (''cicd'', ''hosting''),
     (''cicd'', ''infrastructure''),
     (''backend'', ''messaging''),
     (''messaging'', ''backend'')]"

definition is_valid_connection :: "string \<Rightarrow> string \<Rightarrow> bool" where
  "is_valid_connection source_category target_category =
     ((source_category, target_category) \<in> VALID_CONNECTIONS)"

definition get_valid_targets :: "string \<Rightarrow> string set" where
  "get_valid_targets source_category =
     snd ` Set.filter (\<lambda>p. fst p = source_category) VALID_CONNECTIONS"

definition get_valid_sources :: "string \<Rightarrow> string set" where
  "get_valid_sources target_category =
     fst ` Set.filter (\<lambda>p. snd p = target_category) VALID_CONNECTIONS"

section \<open>The architecture service (\<^verbatim>\<open>app/services/architecture_service.py\<close>)\<close>

definition HORIZONTAL_SPACING :: int where "HORIZONTAL_SPACING = 300"
definition VERTICAL_SPACING :: int where "VERTICAL_SPACING = 150"
definition START_X :: int where "START_X = 100"
definition START_Y :: int where "START_Y = 100"

definition CATEGORY_LAYERS :: "(string \<times> int) list" where
  "CATEGORY_LAYERS = [
     (''frontend'', 0),
     (''infrastructure'', 1),
     (''backend'', 2),
     (''authentication'', 2),
     (''database'', 3),
     (''storage'', 3),
     (''messaging'', 3),
     (''search'', 3),
     (''ai_ml'', 3),
     (''email'', 3),
     (''payment'', 3),
     (''hosting'', 4),
     (''monitoring'', 5),
     (''analytics'', 5),
     (''cicd'', 6)]"

text \<open>
  Randomness.  \<^verbatim>\<open>secrets.token_urlsafe(6)[:8]\<close> is the only random draw of the
  module.  The draws of one run are a sequence \<open>toks\<close> (the \<open>k\<close>-th call returns
  \<open>toks k\<close>), and each function that draws takes the number \<open>k\<close> of draws made so
  far.  Nothing is assumed about \<open>toks\<close>.
\<close>

definition generate_node_id :: "(nat \<Rightarrow> string) \<Rightarrow> nat \<Rightarrow> string \<Rightarrow> string" where
  "generate_node_id toks k component_id = component_id @ ''-'' @ take 8 (toks k)"

definition calculate_node_position :: "int \<Rightarrow> int \<Rightarrow> NodePosition" where
  "calculate_node_position layer index_in_layer =
     \<lparr>pos_x = of_int (START_X + layer * HORIZONTAL_SPACING),
      pos_y = of_int (START_Y + index_in_layer * VERTICAL_SPACING)\<rparr>"

text \<open>\<^verbatim>\<open>s.replace(c, "")\<close> for a one-character \<open>c\<close>.\<close>

definition remove_char :: "char \<Rightarrow> string \<Rightarrow> string" where
  "remove_char c s = filter (\<lambda>ch. ch \<noteq> c) s"

definition create_node_from_component ::
  "(nat \<Rightarrow> string) \<Rightarrow> nat \<Rightarrow> string \<Rightarrow> NodePosition \<Rightarrow> Node option" where
  "create_node_from_component toks k component_id pos =
     (case get_component_by_id component_id of
        None \<Rightarrow> None
      | Some component \<Rightarrow>
          let nid = generate_node_id toks k component_id;
              icon_name = remove_char (CHR ''-'') (remove_char (CHR ''_'') component_id);
              icon_color = ''000000'';
              icon_url = ''https://cdn.simpleicons.org/'' @ icon_name @ ''/'' @ icon_color
          in Some \<lparr>node_id = nid, node_type = ''custom'', position = pos,
                    data = \<lparr>label = comp_name component, componentId = component_id,
                             category = comp_category component, icon = Some icon_url,
                             color = Some ''#3b82f6''\<rparr>\<rparr>)"

text \<open>
  A dictionary of lists, in insertion order:
  \<^verbatim>\<open>if k not in d: d[k] = []\<close> followed by \<^verbatim>\<open>d[k].append(v)\<close>.
\<close>

definition dict_append :: "('k \<times> 'v list) list \<Rightarrow> 'k \<Rightarrow> 'v \<Rightarrow> ('k \<times> 'v list) list" where
  "dict_append d k v =
     AList.update k (case map_of d k of None \<Rightarrow> [v] | Some vs \<Rightarrow> vs @ [v]) d"

text \<open>The grouping loop at the head of \<^verbatim>\<open>generate_edges\<close>.\<close>

fun group_by_category :: "Node list \<Rightarrow> (string \<times> Node list) list \<Rightarrow> (string \<times> Node list) list" where
  "group_by_category [] d = d"
| "group_by_category (node # rest) d =
     group_by_category rest (dict_append d (category (data node)) node)"

text \<open>
  The inner loop of \<^verbatim>\<open>generate_edges\<close>, over the target categories of one source
  node.  The state is the edge list and the number of draws.  The dictionary
  \<^verbatim>\<open>node_by_id\<close> that the source builds first is never read.
\<close>

fun targets_loop ::
  "(nat \<Rightarrow> string) \<Rightarrow> (string \<times> Node list) list \<Rightarrow> Node \<Rightarrow> string list
   \<Rightarrow> Edge list \<times> nat \<Rightarrow> Edge list \<times> nat" where
  "targets_loop toks nodes_by_category source_node [] st = st"
| "targets_loop toks nodes_by_category source_node (target_category # rest) (es, k) =
     (case map_of nodes_by_category target_category of
        None \<Rightarrow> targets_loop toks nodes_by_category source_node rest (es, k)
      | Some target_nodes \<Rightarrow>
          (case target_nodes of
             [] \<Rightarrow> targets_loop toks nodes_by_category source_node rest (es, k)
           | target_node # _ \<Rightarrow>
               let eid = ''e'' @ take 8 (toks k);
                   to_right = pos_x (position source_node) < pos_x (position target_node);
                   source_handle = (if to_right then Right else Bottom);
                   target_handle = (if to_right then Left else Top);
                   edge = \<lparr>edge_id = eid, source = node_id source_node,
                           target = node_id target_node,
                           sourceHandle = Some source_handle,
                           targetHandle = Some target_handle,
                           edge_type = ''custom''\<rparr>
               in targets_loop toks nodes_by_category source_node rest (es @ [edge], Suc k)))"

text \<open>
  The outer loop.  \<^verbatim>\<open>get_valid_targets\<close> returns a Python set, and
  \<^verbatim>\<open>for target_category in valid_targets\<close> visits it in an order the language
  does not fix; \<open>iter\<close> is that order, a parameter of the model.
\<close>

fun sources_loop ::
  "(string set \<Rightarrow> string list) \<Rightarrow> (nat \<Rightarrow> string) \<Rightarrow> (string \<times> Node list) list
   \<Rightarrow> Node list \<Rightarrow> Edge list \<times> nat \<Rightarrow> Edge list \<times> nat" where
  "sources_loop iter toks nodes_by_category [] st = st"
| "sources_loop iter toks nodes_by_category (source_node # rest) st =
     sources_loop iter toks nodes_by_category rest
       (targets_loop toks nodes_by_category source_node
          (iter (get_valid_targets (category (data source_node)))) st)"

definition generate_edges ::
  "(string set \<Rightarrow> string list) \<Rightarrow> (nat \<Rightarrow> string) \<Rightarrow> nat \<Rightarrow> Node list \<Rightarrow> Edge list" where
  "generate_edges iter toks k ns =
     fst (sources_loop iter toks (group_by_category ns []) ns ([], k))"

text \<open>The first loop of \<^verbatim>\<open>generate_architecture_from_components\<close>.\<close>

fun layers_loop :: "string list \<Rightarrow> (int \<times> string list) list \<Rightarrow> (int \<times> string list) list" where
  "layers_loop [] layers = layers"
| "layers_loop (cid # rest) layers =
     (case get_component_by_id cid of
        None \<Rightarrow> layers_loop rest layers
      | Some component \<Rightarrow>
          let layer = (case map_of CATEGORY_LAYERS (comp_category component) of
                         Some l \<Rightarrow> l | None \<Rightarrow> 3)
          in layers_loop rest (dict_append layers layer cid))"

text \<open>
  \<^verbatim>\<open>for idx, comp_id in enumerate(components_in_layer)\<close>: a node that is
  \<^verbatim>\<open>None\<close> is not appended, and its index is used up all the same.
\<close>

fun nodes_in_layer ::
  "(nat \<Rightarrow> string) \<Rightarrow> int \<Rightarrow> nat \<Rightarrow> string list \<Rightarrow> Node list \<times> nat \<Rightarrow> Node list \<times> nat" where
  "nodes_in_layer toks layer_num idx [] st = st"
| "nodes_in_layer toks layer_num idx (cid # rest) (ns, k) =
     (case create_node_from_component toks k cid
             (calculate_node_position layer_num (int idx)) of
        None \<Rightarrow> nodes_in_layer toks layer_num (Suc idx) rest (ns, k)
      | Some node \<Rightarrow> nodes_in_layer toks layer_num (Suc idx) rest (ns @ [node], Suc k))"

text \<open>
  \<^verbatim>\<open>for layer_num in sorted(layers.keys())\<close>; the subscript
  \<^verbatim>\<open>layers[layer_num]\<close> raises \<^verbatim>\<open>KeyError\<close> on a missing key.
\<close>

fun nodes_loop ::
  "(nat \<Rightarrow> string) \<Rightarrow> (int \<times> string list) list \<Rightarrow> int list \<Rightarrow> Node list \<times> nat
   \<Rightarrow> py_error + Node list \<times> nat" where
  "nodes_loop toks layers [] st = Inr st"
| "nodes_loop toks layers (layer_num # rest) st =
     (case map_of layers layer_num of
        None \<Rightarrow> Inl KeyError
      | Some components_in_layer \<Rightarrow>
          nodes_loop toks layers rest
            (nodes_in_layer toks layer_num 0 components_in_layer st))"

definition generate_architecture_from_components ::
  "(string set \<Rightarrow> string list) \<Rightarrow> (nat \<Rightarrow> string) \<Rightarrow> string list \<Rightarrow> Scope
   \<Rightarrow> py_error + ArchitectureJson" where
  "generate_architecture_from_components iter toks component_ids sc =
     (let layers = layers_loop component_ids []
      in case nodes_loop toks layers (sort (map fst layers)) ([], 0) of
           Inl e \<Rightarrow> Inl e
         | Inr (ns, k) \<Rightarrow>
             let es = generate_edges iter toks k ns;
                 cost_data = calculate_architecture_cost component_ids sc;
                 cost_estimate = \<lparr>total = total cost_data, breakdown = breakdown cost_data\<rparr>
             in Inr \<lparr>nodes = ns, edges = es, scope = sc,
                      costEstimate = Some cost_estimate, timestamp = None\<rparr>)"

section \<open>The carbon service (\<^verbatim>\<open>web-dashboard/.../services/carbon_service.py\<close>)\<close>

definition REGION_CARBON_INTENSITY :: "(string \<times> real) list" where
  "REGION_CARBON_INTENSITY = [
     (''us-east-1'', 379.0),
     (''us-east-2'', 531.0),
     (''us-west-1'', 210.0),
     (''us-west-2'', 102.0),
     (''eu-west-1'', 296.0),
     (''eu-west-2'', 228.0),
     (''eu-central-1'', 338.0),
     (''eu-north-1'', 8.0),
     (''ap-southeast-1'', 431.0),
     (''ap-northeast-1'', 465.0),
     (''ap-south-1'', 708.0),
     (''sa-east-1'', 61.0),
     (''ca-central-1'', 120.0),
     (''us-central1'', 440.0),
     (''us-east4'', 379.0),
     (''europe-west1'', 80.0),
     (''europe-north1'', 8.0),
     (''asia-east1'', 509.0),
     (''eastus'', 379.0),
     (''westus'', 210.0),
     (''westeurope'', 296.0),
     (''northeurope'', 296.0),
     (''default'', 400.0)]"

definition COMPONENT_POWER_DRAW :: "(string \<times> real) list" where
  "COMPONENT_POWER_DRAW = [
     (''backend'', 50.0),
     (''frontend'', 5.0),
     (''database'', 80.0),
     (''hosting'', 60.0),
     (''ml'', 300.0),
     (''auth'', 10.0),
     (''cache'', 30.0),
     (''queue'', 25.0),
     (''storage'', 15.0),
     (''cicd'', 20.0),
     (''monitoring'', 10.0),
     (''search'', 60.0)]"

record ComponentCarbon =
  component_id :: string
  component_name :: string
  cc_category :: string
  energy_kwh :: real
  carbon_kg :: real
  power_draw_watts :: real

record CarbonMetrics =
  m_energy_kwh :: real
  m_carbon_kg :: real
  carbon_intensity :: real
  region :: string
  cost_usd :: real

text \<open>
  A report also carries a fresh \<^verbatim>\<open>uuid4\<close> and the time of its creation; both are
  left out of the record.
\<close>

record CarbonReport =
  architecture_json :: ArchitectureJson
  metrics :: CarbonMetrics
  component_breakdown :: "ComponentCarbon list"
  user_id :: "string option"

text \<open>
  The loop over the nodes of \<^verbatim>\<open>generate_report\<close>.  The state is the breakdown, the
  total energy and the total carbon.
\<close>

fun carbon_loop ::
  "real \<Rightarrow> real \<Rightarrow> real \<Rightarrow> Node list \<Rightarrow> ComponentCarbon list \<times> real \<times> real
   \<Rightarrow> ComponentCarbon list \<times> real \<times> real" where
  "carbon_loop ci traffic_mul user_mul [] st = st"
| "carbon_loop ci traffic_mul user_mul (node # rest) (bd, total_energy, total_carbon) =
     (let cat = category (data node);
          power_draw = (case map_of COMPONENT_POWER_DRAW cat of Some w \<Rightarrow> w | None \<Rightarrow> 30.0);
          scaled_power0 = power_draw * max traffic_mul 0.5 * max user_mul 0.5;
          scaled_power = (if cat = ''ml'' then scaled_power0 * traffic_mul else scaled_power0);
          e_kwh = (scaled_power * 730) / 1000.0;
          c_kg = (e_kwh * ci) / 1000.0
      in carbon_loop ci traffic_mul user_mul rest
           (bd @ [\<lparr>component_id = componentId (data node),
                   component_name = label (data node),
                   cc_category = cat,
                   energy_kwh = py_round e_kwh 4,
                   carbon_kg = py_round c_kg 4,
                   power_draw_watts = py_round scaled_power 2\<rparr>],
            total_energy + e_kwh, total_carbon + c_kg))"

text \<open>
  \<^verbatim>\<open>generate_report\<close>.  The function \<^verbatim>\<open>calculate_costs\<close> that it imports from the
  dashboard's own \<^verbatim>\<open>cost_calculator\<close> module is not part of the sources at hand; it
  is the parameter \<open>calculate_costs\<close>, giving the \<^verbatim>\<open>total\<close> of the estimate.  The
  dashboard's \<^verbatim>\<open>ArchitectureJson\<close> is taken to be the one above.
  \<^verbatim>\<open>math.log10\<close> raises \<^verbatim>\<open>ValueError\<close> on an argument that is not positive.
\<close>

definition generate_report ::
  "(Node list \<Rightarrow> Scope \<Rightarrow> real) \<Rightarrow> ArchitectureJson \<Rightarrow> string \<Rightarrow> string option
   \<Rightarrow> py_error + CarbonReport" where
  "generate_report calculate_costs arch reg uid =
     (case map_of REGION_CARBON_INTENSITY ''default'' of
        None \<Rightarrow> Inl KeyError
      | Some dflt \<Rightarrow>
          let ci = (case map_of REGION_CARBON_INTENSITY reg of Some v \<Rightarrow> v | None \<Rightarrow> dflt);
              traffic_mul = of_int (trafficLevel (scope arch)) / 3.0
          in if users (scope arch) + 1 \<le> 0 then Inl ValueError
             else
               let user_mul = log 10 (of_int (users (scope arch) + 1)) / 2.0
               in case carbon_loop ci traffic_mul user_mul (nodes arch) ([], 0.0, 0.0) of
                    (bd, total_energy, total_carbon) \<Rightarrow>
                      Inr \<lparr>architecture_json = arch,
                           metrics = \<lparr>m_energy_kwh = py_round total_energy 4,
                                      m_carbon_kg = py_round total_carbon 4,
                                      carbon_intensity = ci,
                                      region = reg,
                                      cost_usd = py_round (calculate_costs (nodes arch) (scope arch)) 2\<rparr>,
                           component_breakdown = bd,
                           user_id = uid\<rparr>)"

section \<open>Sample inputs\<close>

text \<open>
  One iteration order for the sets of target categories (the order in which the
  categories first appear as targets in the source text of \<^verbatim>\<open>VALID_CONNECTIONS\<close>),
  a sequence of tokens, and the scope of the worked example.
\<close>

definition sample_order :: "string list" where
  "sample_order =
     [''backend'', ''authentication'', ''hosting'', ''infrastructure'', ''database'',
      ''storage'', ''ai_ml'', ''messaging'', ''email'', ''payment'', ''search'',
      ''frontend'']"

definition sample_iter :: "string set \<Rightarrow> string list" where
  "sample_iter S = filter (\<lambda>c. c \<in> S) sample_order"

definition sample_toks :: "nat \<Rightarrow> string" where
  "sample_toks k = take 8 (drop (k mod 8) ''q7Xb_2Lm-q7Xb_2Lm'')"

definition sample_scope :: Scope where
  "sample_scope = \<lparr>users = 1000, trafficLevel = 3, dataVolumeGB = 100,
                    regions = 1, availability = 99.9\<rparr>"

text \<open>The order in which a loop visits a Python set: each element once.\<close>

definition set_iteration :: "(string set \<Rightarrow> string list) \<Rightarrow> bool" where
  "set_iteration iter =
     (\<forall>c. set (iter (get_valid_targets c)) = get_valid_targets c
          \<and> distinct (iter (get_valid_targets c)))"

section \<open>The first-match policy, as the specification words it\<close>

text \<open>
  The specification describes the edges without the loops of the code: for each source
  node, and for each valid target category of its category in which a node exists, one
  edge to the first node of that category in creation order; the handles are right/left
  when the source lies left of the target and bottom/top otherwise.  The definitions
  below follow these words; they drop the random identifier of an edge and its constant
  \<^verbatim>\<open>type\<close>.
\<close>

definition edge_core :: "Edge \<Rightarrow> string \<times> string \<times> Handle option \<times> Handle option" where
  "edge_core e = (source e, target e, sourceHandle e, targetHandle e)"

definition first_match_edge :: "Node \<Rightarrow> Node \<Rightarrow> string \<times> string \<times> Handle option \<times> Handle option" where
  "first_match_edge s t =
     (if pos_x (position s) < pos_x (position t)
      then (node_id s, node_id t, Some Right, Some Left)
      else (node_id s, node_id t, Some Bottom, Some Top))"

definition first_of_category :: "Node list \<Rightarrow> string \<Rightarrow> Node option" where
  "first_of_category ns c = find (\<lambda>n. category (data n) = c) ns"

definition categories_of :: "Node list \<Rightarrow> string set" where
  "categories_of ns = (\<lambda>n. category (data n)) ` set ns"

definition edges_from_source ::
  "(string set \<Rightarrow> string list) \<Rightarrow> Node list \<Rightarrow> Node
   \<Rightarrow> (string \<times> string \<times> Handle option \<times> Handle option) list" where
  "edges_from_source iter ns s =
     concat (map (\<lambda>c. case first_of_category ns c of
                         None \<Rightarrow> []
                       | Some t \<Rightarrow> [first_match_edge s t])
                 (iter (get_valid_targets (category (data s)))))"

definition first_match_edges ::
  "(string set \<Rightarrow> string list) \<Rightarrow> Node list
   \<Rightarrow> (string \<times> string \<times> Handle option \<times> Handle option) list" where
  "first_match_edges iter ns = concat (map (edges_from_source iter ns) ns)"

section \<open>Sample nodes\<close>

text \<open>
  The nodes of the worked example as \<open>sample_toks\<close> names them, and one more
  backend node.
\<close>

definition sample_nodes :: "Node list" where
  "sample_nodes = [
     \<lparr>node_id = ''nextjs-q7Xb_2Lm'', node_type = ''custom'',
      position = \<lparr>pos_x = 100, pos_y = 100\<rparr>,
      data = \<lparr>label = ''Next.js'', componentId = ''nextjs'', category = ''frontend'',
               icon = Some ''https://cdn.simpleicons.org/nextjs/000000'',
               color = Some ''#3b82f6''\<rparr>\<rparr>,
     \<lparr>node_id = ''fastapi-7Xb_2Lm-'', node_type = ''custom'',
      position = \<lparr>pos_x = 700, pos_y = 100\<rparr>,
      data = \<lparr>label = ''FastAPI'', componentId = ''fastapi'', category = ''backend'',
               icon = Some ''https://cdn.simpleicons.org/fastapi/000000'',
               color = Some ''#3b82f6''\<rparr>\<rparr>,
     \<lparr>node_id = ''postgresql-Xb_2Lm-q'', node_type = ''custom'',
      position = \<lparr>pos_x = 1000, pos_y = 100\<rparr>,
      data = \<lparr>label = ''PostgreSQL'', componentId = ''postgresql'', category = ''database'',
               icon = Some ''https://cdn.simpleicons.org/postgresql/000000'',
               color = Some ''#3b82f6''\<rparr>\<rparr>]"

definition sample_extra :: Node where
  "sample_extra =
     \<lparr>node_id = ''django-b_2Lm-q7'', node_type = ''custom'',
      position = \<lparr>pos_x = 700, pos_y = 250\<rparr>,
      data = \<lparr>label = ''Django'', componentId = ''django'', category = ''backend'',
               icon = Some ''https://cdn.simpleicons.org/django/000000'',
               color = Some ''#3b82f6''\<rparr>\<rparr>"

section \<open>Auxiliary notions for the statements\<close>

text \<open>
  An identifier is resolvable when the catalog has it.  \<open>placed_components\<close> reads
  off a result the component and the coordinates of each node (nothing when the call
  raised).
\<close>

definition resolvable :: "string \<Rightarrow> bool" where
  "resolvable cid = (get_component_by_id cid \<noteq> None)"

definition placed_components :: "py_error + ArchitectureJson \<Rightarrow> (string \<times> real \<times> real) list" where
  "placed_components r =
     (case r of
        Inl e \<Rightarrow> []
      | Inr a \<Rightarrow> map (\<lambda>n. (componentId (data n), pos_x (position n), pos_y (position n)))
                   (nodes a))"

section \<open>Auxiliary notions for the carbon report\<close>

text \<open>
  \<open>intensity_of\<close> is the table lookup at the head of \<^verbatim>\<open>generate_report\<close>, with the
  value 400 of the key \<^verbatim>\<open>default\<close>.  The sample architecture holds the sample nodes;
  the sample cost function stands for the dashboard's \<^verbatim>\<open>calculate_costs\<close>.
\<close>

definition intensity_of :: "string \<Rightarrow> real" where
  "intensity_of reg = (case map_of REGION_CARBON_INTENSITY reg of Some v \<Rightarrow> v | None \<Rightarrow> 400)"

definition sample_costs :: "Node list \<Rightarrow> Scope \<Rightarrow> real" where
  "sample_costs ns sc = total (calculate_architecture_cost (map (\<lambda>n. componentId (data n)) ns) sc)"

definition sample_arch :: ArchitectureJson where
  "sample_arch = \<lparr>nodes = sample_nodes, edges = [], scope = sample_scope,
                   costEstimate = None, timestamp = None\<rparr>"

section \<open>Evaluation of the worked example\<close>

lemma lookup_nextjs:
  "get_component_by_id ''nextjs'' =
     Some \<lparr>comp_id = ''nextjs'', comp_name = ''Next.js'', comp_category = ''frontend'',
           pricing_tier = ''free'', base_cost = 0\<rparr>"
  by (simp add: get_component_by_id_def COMPONENTS_def)

lemma lookup_fastapi:
  "get_component_by_id ''fastapi'' =
     Some \<lparr>comp_id = ''fastapi'', comp_name = ''FastAPI'', comp_category = ''backend'',
           pricing_tier = ''free'', base_cost = 0\<rparr>"
  by (simp add: get_component_by_id_def COMPONENTS_def)

lemma lookup_postgresql:
  "get_component_by_id ''postgresql'' =
     Some \<lparr>comp_id = ''postgresql'', comp_name = ''PostgreSQL'', comp_category = ''database'',
           pricing_tier = ''managed'', base_cost = 25\<rparr>"
  by (simp add: get_component_by_id_def COMPONENTS_def)

lemma lookup_unknown: "get_component_by_id ''no-such-component'' = None"
  by (simp add: get_component_by_id_def COMPONENTS_def)

lemma sample_multipliers:
  "get_user_multiplier (users sample_scope) = 1"
  "get_traffic_multiplier (trafficLevel sample_scope) = 2"
  "get_region_multiplier (regions sample_scope) = 1"
  "get_availability_multiplier (availability sample_scope) = 1.2"
  by (simp_all add: sample_scope_def get_user_multiplier_def USER_TIERS_def
      get_traffic_multiplier_def TRAFFIC_MULTIPLIERS_def get_region_multiplier_def
      REGION_MULTIPLIERS_def get_availability_multiplier_def AVAILABILITY_MULTIPLIERS_def)

lemma cost_postgresql:
  "calculate_component_cost ''postgresql'' sample_scope = (25, 62.3)"
  by (simp add: calculate_component_cost_def lookup_postgresql sample_multipliers
      DATA_COST_PER_GB_def py_round_def round_half_even_def Let_def)
     (simp add: sample_scope_def)

section \<open>The cost model\<close>

subsection \<open>Rounding\<close>

lemma py_round_0: "py_round 0 nd = 0"
  by (simp add: py_round_def round_half_even_def)

subsection \<open>The user multiplier\<close>

lemma user_multiplier_cases:
  "get_user_multiplier u =
     (if u \<le> 1000 then 1.0 else if u \<le> 10000 then 1.5 else if u \<le> 100000 then 2.5
      else if u \<le> 1000000 then 4.0 else 6.0)"
  by (simp add: get_user_multiplier_def USER_TIERS_def)

text \<open>
  Claim C5.  For every integer \<open>u\<close>, \<open>get_user_multiplier u\<close> is the step function
  with the breakpoints 1,000, 10,000, 100,000 and 1,000,000 and the values 1.0, 1.5,
  2.5 and 4.0 (the first breakpoint that \<open>u\<close> does not exceed wins), and 6.0 above the
  last breakpoint.  It is non-decreasing, and its values at 999, 1000, 1001 and
  \<open>10^7\<close> are 1.0, 1.0, 1.5 and 6.0.
\<close>

theorem get_user_multiplier_step:
  "get_user_multiplier u =
     (if u \<le> 1000 then 1.0 else if u \<le> 10000 then 1.5 else if u \<le> 100000 then 2.5
      else if u \<le> 1000000 then 4.0 else 6.0)
   \<and> (\<forall>v. u \<le> v \<longrightarrow> get_user_multiplier u \<le> get_user_multiplier v)
   \<and> get_user_multiplier 999 = 1.0 \<and> get_user_multiplier 1000 = 1.0
   \<and> get_user_multiplier 1001 = 1.5 \<and> get_user_multiplier (10 ^ 7) = 6.0"
  by (simp add: user_multiplier_cases)

theorem get_user_multiplier_step_witness:
  "(1001::int) \<le> 5000000 \<and> get_user_multiplier 1001 = 1.5
   \<and> get_user_multiplier 1001 \<le> get_user_multiplier 5000000"
  using get_user_multiplier_step [of 1001] by simp

subsection \<open>Free components\<close>

text \<open>
  Claim C6.  For every component identifier and every scope,
  \<open>calculate_component_cost\<close> returns \<open>(0, 0)\<close> when the identifier is not in the
  catalog or the base cost of its component is 0, whatever the scope is.
\<close>

theorem free_component_cost:
  "get_component_by_id cid = None
     \<or> (\<exists>c. get_component_by_id cid = Some c \<and> base_cost c = 0)
   \<Longrightarrow> calculate_component_cost cid sc = (0, 0)"
  by (auto simp: calculate_component_cost_def)

theorem free_component_cost_witness:
  "(\<exists>c. get_component_by_id ''nextjs'' = Some c \<and> base_cost c = 0)
   \<and> calculate_component_cost ''nextjs''
        \<lparr>users = 2000000, trafficLevel = 5, dataVolumeGB = 5000, regions = 4,
         availability = 99.999\<rparr> = (0, 0)
   \<and> get_component_by_id ''no-such-component'' = None
   \<and> calculate_component_cost ''no-such-component'' sample_scope = (0, 0)"
proof -
  have h: "\<exists>c. get_component_by_id ''nextjs'' = Some c \<and> base_cost c = 0"
    by (simp add: lookup_nextjs)
  from h have "get_component_by_id ''nextjs'' = None
     \<or> (\<exists>c. get_component_by_id ''nextjs'' = Some c \<and> base_cost c = 0)" ..
  from free_component_cost [OF this]
  have a: "calculate_component_cost ''nextjs''
        \<lparr>users = 2000000, trafficLevel = 5, dataVolumeGB = 5000, regions = 4,
         availability = 99.999\<rparr> = (0, 0)" .
  have "get_component_by_id ''no-such-component'' = None
     \<or> (\<exists>c. get_component_by_id ''no-such-component'' = Some c \<and> base_cost c = 0)"
    by (simp add: lookup_unknown)
  from free_component_cost [OF this]
  have b: "calculate_component_cost ''no-such-component'' sample_scope = (0, 0)" .
  show ?thesis using h a b lookup_unknown by simp
qed

subsection \<open>The total of an architecture\<close>

lemma component_cost_fl_form:
  "snd (calculate_component_cost_fl ops cid sc) = fl ops 0
   \<or> (\<exists>raw. snd (calculate_component_cost_fl ops cid sc) = fround ops raw 2)"
  by (auto simp: calculate_component_cost_fl_def Let_def split: option.splits)

lemma cost_loop_fl_sum:
  "cost_loop_fl ops sc ids (bd, tot) = (bd', tot') \<Longrightarrow>
     \<exists>new. bd' = bd @ new
       \<and> tot' = foldl (fadd ops) tot (map scaledCost new)
       \<and> (\<forall>b \<in> set new.
             scaledCost b = snd (calculate_component_cost_fl ops (cb_componentId b) sc))"
proof (induction ids arbitrary: bd tot)
  case Nil
  then show ?case by simp
next
  case (Cons i ids)
  show ?case
  proof (cases "get_component_by_id i")
    case None
    with Cons show ?thesis by simp
  next
    case (Some c)
    obtain b s where bs: "calculate_component_cost_fl ops i sc = (b, s)"
      by (cases "calculate_component_cost_fl ops i sc")
    let ?e = "\<lparr>cb_category = comp_category c, cb_component = comp_name c,
               cb_componentId = i, baseCost = b, scaledCost = s\<rparr>"
    have "cost_loop_fl ops sc ids (bd @ [?e], fadd ops tot s) = (bd', tot')"
      using Cons.prems Some bs by simp
    from Cons.IH [OF this] obtain new where
      n: "bd' = (bd @ [?e]) @ new"
         "tot' = foldl (fadd ops) (fadd ops tot s) (map scaledCost new)"
         "\<forall>b \<in> set new.
             scaledCost b = snd (calculate_component_cost_fl ops (cb_componentId b) sc)"
      by blast
    have "bd' = bd @ (?e # new)
       \<and> tot' = foldl (fadd ops) tot (map scaledCost (?e # new))
       \<and> (\<forall>b \<in> set (?e # new).
             scaledCost b = snd (calculate_component_cost_fl ops (cb_componentId b) sc))"
      using n bs by simp
    then show ?thesis by (rule exI)
  qed
qed

text \<open>
  Claim C2.  For every list of component identifiers and every scope, and whatever the
  float operations are: the total that \<open>calculate_architecture_cost\<close> reports is
  \<^verbatim>\<open>round(s, 2)\<close>, where \<open>s\<close> is the sum of the scaled costs of its breakdown entries,
  added from \<^verbatim>\<open>0.0\<close> in the order of the breakdown; and the scaled cost of each entry is
  the scaled cost of its component, which is the literal \<^verbatim>\<open>0.0\<close> of the early returns
  or a value that \<^verbatim>\<open>round(_, 2)\<close> returned.
\<close>

theorem architecture_cost_total:
  "total (calculate_architecture_cost_fl ops ids sc)
     = fround ops
         (foldl (fadd ops) (fl ops 0)
            (map scaledCost (breakdown (calculate_architecture_cost_fl ops ids sc)))) 2
   \<and> (\<forall>b \<in> set (breakdown (calculate_architecture_cost_fl ops ids sc)).
         scaledCost b = snd (calculate_component_cost_fl ops (cb_componentId b) sc)
         \<and> (scaledCost b = fl ops 0 \<or> (\<exists>raw. scaledCost b = fround ops raw 2)))"
proof -
  obtain bd tot where l: "cost_loop_fl ops sc ids ([], fl ops 0) = (bd, tot)"
    by (cases "cost_loop_fl ops sc ids ([], fl ops 0)")
  have r: "calculate_architecture_cost_fl ops ids sc
             = \<lparr>total = fround ops tot 2, breakdown = bd\<rparr>"
    by (simp add: calculate_architecture_cost_fl_def l)
  from cost_loop_fl_sum [OF l]
  have s: "tot = foldl (fadd ops) (fl ops 0) (map scaledCost bd)"
    and e: "\<forall>b \<in> set bd.
              scaledCost b = snd (calculate_component_cost_fl ops (cb_componentId b) sc)"
    by auto
  have "scaledCost b = fl ops 0 \<or> (\<exists>raw. scaledCost b = fround ops raw 2)"
    if "b \<in> set bd" for b
    using e that component_cost_fl_form [of ops "cb_componentId b" sc] by simp
  with s e show ?thesis by (simp add: r)
qed

text \<open>
  With exact arithmetic for the float operations, the parametric functions are the
  functions of the cost calculator section.
\<close>

lemma exact_ops_sel:
  "fl exact_ops = (\<lambda>v. v)" "fadd exact_ops = (+)" "fmul exact_ops = (*)"
  "fround exact_ops = py_round"
  by (simp_all add: exact_ops_def)

lemma exact_multipliers:
  "get_user_multiplier_fl exact_ops u = get_user_multiplier u"
  "get_traffic_multiplier_fl exact_ops t = get_traffic_multiplier t"
  "get_region_multiplier_fl exact_ops r = get_region_multiplier r"
  "get_availability_multiplier_fl exact_ops a = get_availability_multiplier a"
  by (simp_all add: exact_ops_sel
      get_user_multiplier_fl_def get_user_multiplier_def
      get_traffic_multiplier_fl_def get_traffic_multiplier_def
      get_region_multiplier_fl_def get_region_multiplier_def
      get_availability_multiplier_fl_def get_availability_multiplier_def
      split: option.splits)

lemma exact_component_cost:
  "calculate_component_cost_fl exact_ops cid sc = calculate_component_cost cid sc"
  by (simp add: calculate_component_cost_fl_def calculate_component_cost_def
      exact_ops_sel exact_multipliers Let_def split: option.splits)

lemma exact_cost_loop:
  "cost_loop_fl exact_ops sc ids st = cost_loop sc ids st"
proof (induction ids arbitrary: st)
  case Nil
  then show ?case by simp
next
  case (Cons i ids)
  obtain bd tot where st: "st = (bd, tot)" by (cases st)
  show ?case
    by (simp add: st exact_component_cost exact_ops_sel Cons.IH
        split: option.splits prod.splits)
qed

lemma exact_architecture_cost:
  "calculate_architecture_cost_fl exact_ops ids sc = calculate_architecture_cost ids sc"
  by (simp add: calculate_architecture_cost_fl_def calculate_architecture_cost_def
      exact_cost_loop exact_ops_sel)

text \<open>
  Known values of double arithmetic, as checks of \<open>binary64\<close>: the double of 0.1,
  \<^verbatim>\<open>0.1 + 0.2 == 0.30000000000000004\<close>, \<^verbatim>\<open>round(2.675, 2) == 2.67\<close> and
  \<^verbatim>\<open>round(0.125, 2) == 0.12\<close>.
\<close>

lemma binary64_samples:
  "binary64 0.1 = 3602879701896397 / 2 ^ 55"
  "double_add (binary64 0.1) (binary64 0.2) = binary64 0.30000000000000004"
  "binary64 0.30000000000000004 \<noteq> binary64 0.3"
  "double_round (binary64 2.675) 2 = binary64 2.67"
  "double_round (binary64 0.125) 2 = binary64 0.12"
  by code_simp+

text \<open>
  In double arithmetic, at 10,000 users, traffic level 2, two regions and 99.99 percent:
  AWS Lambda costs 49.73 and DigitalOcean 149.17; their float sum is
  198.89999999999998, which is not the double of 198.9; the reported total is 198.9.
\<close>

lemma double_lambda:
  "calculate_component_cost_fl double_ops ''aws_lambda'' tier_scope = (10, binary64 49.73)"
  by code_simp

lemma double_sum:
  "foldl (fadd double_ops) (fl double_ops 0) [binary64 49.73, binary64 149.17]
     = binary64 198.89999999999998"
  by code_simp

lemma double_sum_off_grid: "binary64 198.89999999999998 \<noteq> binary64 198.9"
  by code_simp

lemma double_total:
  "calculate_architecture_cost_fl double_ops
     [''aws_lambda'', ''no-such-component'', ''digitalocean''] tier_scope =
     \<lparr>total = binary64 198.9,
      breakdown = [
        \<lparr>cb_category = ''hosting'', cb_component = ''AWS Lambda'',
         cb_componentId = ''aws_lambda'', baseCost = 10, scaledCost = binary64 49.73\<rparr>,
        \<lparr>cb_category = ''hosting'', cb_component = ''DigitalOcean'',
         cb_componentId = ''digitalocean'', baseCost = 30, scaledCost = binary64 149.17\<rparr>]\<rparr>"
  by code_simp

theorem architecture_cost_total_witness:
  "map scaledCost (breakdown (calculate_architecture_cost_fl double_ops
       [''aws_lambda'', ''no-such-component'', ''digitalocean''] tier_scope))
     = [binary64 49.73, binary64 149.17]
   \<and> foldl (fadd double_ops) (fl double_ops 0) [binary64 49.73, binary64 149.17]
       = binary64 198.89999999999998
   \<and> binary64 198.89999999999998 \<noteq> binary64 198.9
   \<and> total (calculate_architecture_cost_fl double_ops
       [''aws_lambda'', ''no-such-component'', ''digitalocean''] tier_scope)
       = fround double_ops (binary64 198.89999999999998) 2
   \<and> total (calculate_architecture_cost_fl double_ops
       [''aws_lambda'', ''no-such-component'', ''digitalocean''] tier_scope)
       = binary64 198.9
   \<and> snd (calculate_component_cost_fl double_ops ''aws_lambda'' tier_scope) = binary64 49.73"
proof -
  let ?r = "calculate_architecture_cost_fl double_ops
       [''aws_lambda'', ''no-such-component'', ''digitalocean''] tier_scope"
  have m: "map scaledCost (breakdown ?r) = [binary64 49.73, binary64 149.17]"
    by (simp add: double_total)
  from architecture_cost_total
         [of double_ops "[''aws_lambda'', ''no-such-component'', ''digitalocean'']" tier_scope]
  have "total ?r = fround double_ops
         (foldl (fadd double_ops) (fl double_ops 0) (map scaledCost (breakdown ?r))) 2"
    by (rule conjunct1)
  then have t: "total ?r = fround double_ops (binary64 198.89999999999998) 2"
    by (simp only: m double_sum)
  have v: "total ?r = binary64 198.9"
    by (simp add: double_total)
  from m double_sum double_sum_off_grid t v double_lambda show ?thesis
    by simp
qed

section \<open>Edge generation\<close>

lemma map_of_dict_append:
  "map_of (dict_append d k v) =
     (map_of d)(k \<mapsto> (case map_of d k of None \<Rightarrow> [v] | Some vs \<Rightarrow> vs @ [v]))"
  by (simp add: dict_append_def update_conv')

lemma map_of_group_by_category:
  "map_of (group_by_category ns d) c =
     (case map_of d c of
        None \<Rightarrow> (case filter (\<lambda>n. category (data n) = c) ns of [] \<Rightarrow> None | x # xs \<Rightarrow> Some (x # xs))
      | Some old \<Rightarrow> Some (old @ filter (\<lambda>n. category (data n) = c) ns))"
proof (induction ns arbitrary: d)
  case Nil
  then show ?case by (simp split: option.splits)
next
  case (Cons n ns)
  show ?case
    by (simp add: Cons.IH map_of_dict_append split: option.splits list.splits)
qed

lemma find_as_filter:
  "find P xs = (case filter P xs of [] \<Rightarrow> None | x # _ \<Rightarrow> Some x)"
  by (induction xs) auto

lemma group_first:
  "(case map_of (group_by_category ns []) c of
      None \<Rightarrow> None
    | Some [] \<Rightarrow> None
    | Some (t # _) \<Rightarrow> Some t) = first_of_category ns c"
  by (simp add: map_of_group_by_category first_of_category_def find_as_filter split: list.splits)

lemma edge_core_record:
  "edge_core \<lparr>edge_id = i, source = s, target = t, sourceHandle = sh, targetHandle = th,
              edge_type = ty\<rparr> = (s, t, sh, th)"
  by (simp add: edge_core_def)

lemma targets_loop_core:
  "map edge_core (fst (targets_loop toks nbc s cs (es, k))) =
     map edge_core es @
     concat (map (\<lambda>c. case (case map_of nbc c of None \<Rightarrow> None | Some [] \<Rightarrow> None
                                | Some (t # _) \<Rightarrow> Some t) of
                         None \<Rightarrow> [] | Some t \<Rightarrow> [first_match_edge s t]) cs)"
proof (induction cs arbitrary: es k)
  case Nil
  then show ?case by simp
next
  case (Cons c cs)
  show ?case
    by (simp add: Cons.IH Let_def edge_core_record first_match_edge_def
        split: option.splits list.splits)
qed

lemma sources_loop_core:
  "map edge_core (fst (sources_loop iter toks (group_by_category ns []) ss st)) =
     map edge_core (fst st) @ concat (map (edges_from_source iter ns) ss)"
proof (induction ss arbitrary: st)
  case Nil
  then show ?case by simp
next
  case (Cons s ss)
  obtain es k where st: "st = (es, k)" by (cases st)
  show ?case
    by (simp add: Cons.IH st targets_loop_core group_first edges_from_source_def)
qed

lemma generate_edges_core:
  "map edge_core (generate_edges iter toks k ns) = first_match_edges iter ns"
  by (simp add: generate_edges_def sources_loop_core first_match_edges_def)

lemma valid_target_iff: "t \<in> get_valid_targets s \<longleftrightarrow> (s, t) \<in> VALID_CONNECTIONS"
  by (force simp: get_valid_targets_def)

lemma valid_targets_range: "get_valid_targets c \<subseteq> snd ` VALID_CONNECTIONS"
  by (auto simp: get_valid_targets_def)

lemma sample_order_covers: "snd ` VALID_CONNECTIONS \<subseteq> set sample_order"
  unfolding VALID_CONNECTIONS_def sample_order_def by simp

lemma filter_enumerates:
  "S \<subseteq> set L \<Longrightarrow> distinct L \<Longrightarrow>
     set (filter (\<lambda>c. c \<in> S) L) = S \<and> distinct (filter (\<lambda>c. c \<in> S) L)"
  by auto

lemma sample_iter_ok: "set_iteration sample_iter"
  unfolding set_iteration_def sample_iter_def
proof (intro allI)
  fix c
  have d: "distinct sample_order"
    by (simp add: sample_order_def)
  have s: "get_valid_targets c \<subseteq> set sample_order"
    using valid_targets_range sample_order_covers by (rule subset_trans)
  show "set (filter (\<lambda>x. x \<in> get_valid_targets c) sample_order) = get_valid_targets c
        \<and> distinct (filter (\<lambda>x. x \<in> get_valid_targets c) sample_order)"
    by (rule filter_enumerates [OF s d])
qed

lemma first_of_category_None: "first_of_category ns c = None \<longleftrightarrow> c \<notin> categories_of ns"
  by (auto simp: first_of_category_def categories_of_def find_None_iff)

lemma first_of_category_Some:
  "first_of_category ns c = Some t \<Longrightarrow> t \<in> set ns \<and> category (data t) = c"
  by (auto simp: first_of_category_def find_Some_iff)

lemma first_of_category_Some_in:
  "first_of_category ns c = Some t \<Longrightarrow> c \<in> categories_of ns"
  using first_of_category_None [of ns c] by auto

lemma length_edges_from_source:
  assumes "set_iteration iter"
  shows "length (edges_from_source iter ns s)
           = card (get_valid_targets (category (data s)) \<inter> categories_of ns)"
proof -
  let ?cs = "iter (get_valid_targets (category (data s)))"
  have d: "distinct ?cs" and e: "set ?cs = get_valid_targets (category (data s))"
    using assms by (simp_all add: set_iteration_def)
  have "length (concat (map (\<lambda>c. case first_of_category ns c of
                         None \<Rightarrow> [] | Some t \<Rightarrow> [first_match_edge s t]) cs))
          = length (filter (\<lambda>c. c \<in> categories_of ns) cs)" for cs
    by (induction cs) (auto simp: first_of_category_None first_of_category_Some_in split: option.splits)
  then have "length (edges_from_source iter ns s)
               = length (filter (\<lambda>c. c \<in> categories_of ns) ?cs)"
    by (simp add: edges_from_source_def)
  also have "\<dots> = card ({c. c \<in> categories_of ns} \<inter> set ?cs)"
    using d by (rule distinct_length_filter)
  also have "{c. c \<in> categories_of ns} \<inter> set ?cs
               = get_valid_targets (category (data s)) \<inter> categories_of ns"
    using e by auto
  finally show ?thesis .
qed

lemma find_append_first:
  "find P (xs @ ys) = (case find P xs of None \<Rightarrow> find P ys | Some x \<Rightarrow> Some x)"
  by (induction xs) auto

lemma first_of_category_append:
  assumes "category (data n') \<in> categories_of ns"
  shows "first_of_category (ns @ [n']) c = first_of_category ns c"
proof (cases "first_of_category ns c")
  case None
  then have "c \<notin> categories_of ns" by (simp add: first_of_category_None)
  with assms have "category (data n') \<noteq> c" by auto
  with None show ?thesis by (simp add: first_of_category_def find_append_first)
next
  case (Some t)
  then show ?thesis by (simp add: first_of_category_def find_append_first)
qed

lemma edges_from_source_append:
  assumes "category (data n') \<in> categories_of ns"
  shows "edges_from_source iter (ns @ [n']) = edges_from_source iter ns"
  by (rule ext) (simp add: edges_from_source_def first_of_category_append [OF assms])

lemma first_match_edges_append:
  assumes "category (data n') \<in> categories_of ns"
  shows "first_match_edges iter (ns @ [n'])
           = first_match_edges iter ns @ edges_from_source iter ns n'"
  by (simp add: first_match_edges_def edges_from_source_append [OF assms])

lemma first_match_edge_present:
  assumes "set_iteration iter" and "s \<in> set ns"
    and "c \<in> get_valid_targets (category (data s))"
    and "first_of_category ns c = Some t"
  shows "first_match_edge s t \<in> set (first_match_edges iter ns)"
proof -
  have "c \<in> set (iter (get_valid_targets (category (data s))))"
    using assms(1,3) by (simp add: set_iteration_def)
  then have "first_match_edge s t \<in> set (edges_from_source iter ns s)"
    using assms(4) by (force simp: edges_from_source_def)
  then show ?thesis
    using assms(2) by (auto simp: first_match_edges_def)
qed

text \<open>
  Claim C3.  For every node list, the edges follow the first-match policy, whatever the
  order in which the set of valid targets is visited: leaving the random identifier
  aside, the edge list is \<open>first_match_edges\<close>, that is, for each source node and each
  valid target category of its category in which a node exists, one edge to the first
  node of that category in creation order, with the handles right/left when the source's
  \<open>x\<close> is smaller than the target's and bottom/top otherwise.  A source node has as
  many edges as there are valid target categories with a node, and each of these edges
  is present.  Appending a node of a category that already has a node adds the edges
  that leave the new node and nothing else: no earlier source gets another edge.
\<close>

theorem generate_edges_first_match:
  assumes "set_iteration iter"
  shows "map edge_core (generate_edges iter toks k ns) = first_match_edges iter ns
    \<and> length (generate_edges iter toks k ns)
        = (\<Sum>s\<leftarrow>ns. card (get_valid_targets (category (data s)) \<inter> categories_of ns))
    \<and> (\<forall>s \<in> set ns. \<forall>c \<in> get_valid_targets (category (data s)). \<forall>t.
          first_of_category ns c = Some t \<longrightarrow>
          first_match_edge s t \<in> set (map edge_core (generate_edges iter toks k ns)))
    \<and> (category (data n') \<in> categories_of ns \<longrightarrow>
          map edge_core (generate_edges iter toks k (ns @ [n']))
            = map edge_core (generate_edges iter toks k ns) @ edges_from_source iter ns n')"
proof (intro conjI)
  show "map edge_core (generate_edges iter toks k ns) = first_match_edges iter ns"
    by (rule generate_edges_core)
  have "length (generate_edges iter toks k ns)
          = length (map edge_core (generate_edges iter toks k ns))"
    by simp
  also have "\<dots> = length (first_match_edges iter ns)"
    by (simp only: generate_edges_core)
  also have "\<dots> = (\<Sum>s\<leftarrow>ns. length (edges_from_source iter ns s))"
    by (simp add: first_match_edges_def length_concat comp_def)
  also have "\<dots> = (\<Sum>s\<leftarrow>ns. card (get_valid_targets (category (data s)) \<inter> categories_of ns))"
    by (simp add: length_edges_from_source [OF assms])
  finally show "length (generate_edges iter toks k ns)
        = (\<Sum>s\<leftarrow>ns. card (get_valid_targets (category (data s)) \<inter> categories_of ns))" .
  show "\<forall>s \<in> set ns. \<forall>c \<in> get_valid_targets (category (data s)). \<forall>t.
          first_of_category ns c = Some t \<longrightarrow>
          first_match_edge s t \<in> set (map edge_core (generate_edges iter toks k ns))"
    using first_match_edge_present [OF assms] by (simp only: generate_edges_core) blast
  show "category (data n') \<in> categories_of ns \<longrightarrow>
          map edge_core (generate_edges iter toks k (ns @ [n']))
            = map edge_core (generate_edges iter toks k ns) @ edges_from_source iter ns n'"
    by (simp only: generate_edges_core) (simp add: first_match_edges_append)
qed

text \<open>
  Claim C10.  For every node list with a node of category backend, the edges contain a
  self-loop on the first backend node in creation order: an edge whose source and
  target are both the identifier of that node, with the handles bottom and top.
\<close>

theorem backend_self_loop:
  assumes "set_iteration iter" and "n \<in> set ns" and "category (data n) = ''backend''"
  shows "\<exists>b. find (\<lambda>m. category (data m) = ''backend'') ns = Some b
           \<and> (\<exists>e \<in> set (generate_edges iter toks k ns).
                 source e = node_id b \<and> target e = node_id b
                 \<and> sourceHandle e = Some Bottom \<and> targetHandle e = Some Top)"
proof -
  have "''backend'' \<in> categories_of ns"
    using assms(2,3) by (force simp: categories_of_def)
  then obtain b where b: "first_of_category ns ''backend'' = Some b"
    by (cases "first_of_category ns ''backend''") (simp_all add: first_of_category_None)
  then have bs: "b \<in> set ns" and bc: "category (data b) = ''backend''"
    by (simp_all add: first_of_category_Some)
  have v: "''backend'' \<in> get_valid_targets (category (data b))"
    by (simp add: bc valid_target_iff VALID_CONNECTIONS_def)
  have "first_match_edge b b \<in> set (first_match_edges iter ns)"
    by (rule first_match_edge_present [OF assms(1) bs v b])
  then have "(node_id b, node_id b, Some Bottom, Some Top)
               \<in> set (map edge_core (generate_edges iter toks k ns))"
    by (simp add: first_match_edge_def generate_edges_core)
  then obtain e where "e \<in> set (generate_edges iter toks k ns)"
    and "edge_core e = (node_id b, node_id b, Some Bottom, Some Top)"
    by auto
  then show ?thesis
    using b by (auto simp: edge_core_def first_of_category_def)
qed

subsection \<open>The sample nodes\<close>

lemma sample_iter_frontend:
  "sample_iter (get_valid_targets ''frontend'') =
     [''backend'', ''authentication'', ''hosting'', ''infrastructure'']"
  by (simp add: sample_iter_def sample_order_def valid_target_iff VALID_CONNECTIONS_def)

lemma sample_iter_backend:
  "sample_iter (get_valid_targets ''backend'') =
     [''backend'', ''authentication'', ''hosting'', ''database'', ''storage'', ''ai_ml'',
      ''messaging'', ''email'', ''payment'', ''search'']"
  by (simp add: sample_iter_def sample_order_def valid_target_iff VALID_CONNECTIONS_def)

lemma sample_iter_database:
  "sample_iter (get_valid_targets ''database'') = [''storage'']"
  by (simp add: sample_iter_def sample_order_def valid_target_iff VALID_CONNECTIONS_def)

lemma sample_first_match_edges:
  "first_match_edges sample_iter sample_nodes =
     [(''nextjs-q7Xb_2Lm'', ''fastapi-7Xb_2Lm-'', Some Right, Some Left),
      (''fastapi-7Xb_2Lm-'', ''fastapi-7Xb_2Lm-'', Some Bottom, Some Top),
      (''fastapi-7Xb_2Lm-'', ''postgresql-Xb_2Lm-q'', Some Right, Some Left)]"
  by (simp add: first_match_edges_def edges_from_source_def sample_nodes_def
      sample_iter_frontend sample_iter_backend sample_iter_database
      first_of_category_def first_match_edge_def)

lemma sample_edges_from_extra:
  "edges_from_source sample_iter sample_nodes sample_extra =
     [(''django-b_2Lm-q7'', ''fastapi-7Xb_2Lm-'', Some Bottom, Some Top),
      (''django-b_2Lm-q7'', ''postgresql-Xb_2Lm-q'', Some Right, Some Left)]"
  by (simp add: edges_from_source_def sample_nodes_def sample_extra_def
      sample_iter_backend first_of_category_def first_match_edge_def)

lemma sample_extra_category: "category (data sample_extra) \<in> categories_of sample_nodes"
  by (simp add: sample_extra_def sample_nodes_def categories_of_def)

theorem generate_edges_first_match_witness:
  "set_iteration sample_iter
   \<and> category (data sample_extra) \<in> categories_of sample_nodes
   \<and> map edge_core (generate_edges sample_iter sample_toks 3 sample_nodes) =
       [(''nextjs-q7Xb_2Lm'', ''fastapi-7Xb_2Lm-'', Some Right, Some Left),
        (''fastapi-7Xb_2Lm-'', ''fastapi-7Xb_2Lm-'', Some Bottom, Some Top),
        (''fastapi-7Xb_2Lm-'', ''postgresql-Xb_2Lm-q'', Some Right, Some Left)]
   \<and> length (generate_edges sample_iter sample_toks 3 sample_nodes) = 3
   \<and> map edge_core (generate_edges sample_iter sample_toks 3 (sample_nodes @ [sample_extra])) =
       [(''nextjs-q7Xb_2Lm'', ''fastapi-7Xb_2Lm-'', Some Right, Some Left),
        (''fastapi-7Xb_2Lm-'', ''fastapi-7Xb_2Lm-'', Some Bottom, Some Top),
        (''fastapi-7Xb_2Lm-'', ''postgresql-Xb_2Lm-q'', Some Right, Some Left),
        (''django-b_2Lm-q7'', ''fastapi-7Xb_2Lm-'', Some Bottom, Some Top),
        (''django-b_2Lm-q7'', ''postgresql-Xb_2Lm-q'', Some Right, Some Left)]"
proof -
  note t = generate_edges_first_match [OF sample_iter_ok, of sample_toks 3 sample_nodes sample_extra]
  from t have a: "map edge_core (generate_edges sample_iter sample_toks 3 sample_nodes)
                    = first_match_edges sample_iter sample_nodes"
    by (rule conjunct1)
  from a have l: "length (generate_edges sample_iter sample_toks 3 sample_nodes) = 3"
    using length_map [of edge_core "generate_edges sample_iter sample_toks 3 sample_nodes"]
    by (simp add: sample_first_match_edges)
  from t sample_extra_category
  have b: "map edge_core (generate_edges sample_iter sample_toks 3 (sample_nodes @ [sample_extra]))
      = map edge_core (generate_edges sample_iter sample_toks 3 sample_nodes)
          @ edges_from_source sample_iter sample_nodes sample_extra"
    by blast
  show ?thesis
    using sample_iter_ok sample_extra_category a l b
    by (simp add: sample_first_match_edges sample_edges_from_extra)
qed

lemma sample_backend_member:
  "sample_extra \<in> set (sample_nodes @ [sample_extra])"
  by simp

theorem backend_self_loop_witness:
  "set_iteration sample_iter
   \<and> sample_extra \<in> set (sample_nodes @ [sample_extra])
   \<and> category (data sample_extra) = ''backend''
   \<and> find (\<lambda>m. category (data m) = ''backend'') (sample_nodes @ [sample_extra])
        = Some (sample_nodes ! 1)
   \<and> node_id (sample_nodes ! 1) = ''fastapi-7Xb_2Lm-''
   \<and> (\<exists>e \<in> set (generate_edges sample_iter sample_toks 3 (sample_nodes @ [sample_extra])).
         source e = ''fastapi-7Xb_2Lm-'' \<and> target e = ''fastapi-7Xb_2Lm-''
         \<and> sourceHandle e = Some Bottom \<and> targetHandle e = Some Top)"
proof -
  have c: "category (data sample_extra) = ''backend''"
    by (simp add: sample_extra_def)
  have f: "find (\<lambda>m. category (data m) = ''backend'') (sample_nodes @ [sample_extra])
             = Some (sample_nodes ! 1)"
    by (simp add: sample_nodes_def)
  have i: "node_id (sample_nodes ! 1) = ''fastapi-7Xb_2Lm-''"
    by (simp add: sample_nodes_def)
  from backend_self_loop [OF sample_iter_ok sample_backend_member c, of sample_toks 3]
  show ?thesis
    using sample_iter_ok c f i by auto
qed

section \<open>The graph synthesizer\<close>

subsection \<open>Evaluation of the worked example\<close>

lemma example_layers:
  "layers_loop [''nextjs'', ''fastapi'', ''postgresql''] [] =
     [(0, [''nextjs'']), (2, [''fastapi'']), (3, [''postgresql''])]"
  by (simp add: lookup_nextjs lookup_fastapi lookup_postgresql CATEGORY_LAYERS_def dict_append_def)

lemma example_nodes:
  "nodes_loop toks [(0, [''nextjs'']), (2, [''fastapi'']), (3, [''postgresql''])] [0, 2, 3] ([], 0) =
     Inr ([\<lparr>node_id = ''nextjs-'' @ take 8 (toks 0), node_type = ''custom'',
             position = \<lparr>pos_x = 100, pos_y = 100\<rparr>,
             data = \<lparr>label = ''Next.js'', componentId = ''nextjs'', category = ''frontend'',
                      icon = Some ''https://cdn.simpleicons.org/nextjs/000000'',
                      color = Some ''#3b82f6''\<rparr>\<rparr>,
           \<lparr>node_id = ''fastapi-'' @ take 8 (toks 1), node_type = ''custom'',
             position = \<lparr>pos_x = 700, pos_y = 100\<rparr>,
             data = \<lparr>label = ''FastAPI'', componentId = ''fastapi'', category = ''backend'',
                      icon = Some ''https://cdn.simpleicons.org/fastapi/000000'',
                      color = Some ''#3b82f6''\<rparr>\<rparr>,
           \<lparr>node_id = ''postgresql-'' @ take 8 (toks 2), node_type = ''custom'',
             position = \<lparr>pos_x = 1000, pos_y = 100\<rparr>,
             data = \<lparr>label = ''PostgreSQL'', componentId = ''postgresql'', category = ''database'',
                      icon = Some ''https://cdn.simpleicons.org/postgresql/000000'',
                      color = Some ''#3b82f6''\<rparr>\<rparr>], 3)"
  by (simp add: lookup_nextjs lookup_fastapi lookup_postgresql create_node_from_component_def
      generate_node_id_def calculate_node_position_def remove_char_def START_X_def START_Y_def
      HORIZONTAL_SPACING_def VERTICAL_SPACING_def Let_def numeral_2_eq_2 numeral_3_eq_3)

lemma cost_nextjs: "calculate_component_cost ''nextjs'' sc = (0, 0)"
  by (simp add: calculate_component_cost_def lookup_nextjs)

lemma cost_fastapi: "calculate_component_cost ''fastapi'' sc = (0, 0)"
  by (simp add: calculate_component_cost_def lookup_fastapi)

lemma example_cost:
  "calculate_architecture_cost [''nextjs'', ''fastapi'', ''postgresql''] sample_scope =
     \<lparr>total = 62.3,
      breakdown = [
        \<lparr>cb_category = ''frontend'', cb_component = ''Next.js'',
         cb_componentId = ''nextjs'', baseCost = 0, scaledCost = 0\<rparr>,
        \<lparr>cb_category = ''backend'', cb_component = ''FastAPI'',
         cb_componentId = ''fastapi'', baseCost = 0, scaledCost = 0\<rparr>,
        \<lparr>cb_category = ''database'', cb_component = ''PostgreSQL'',
         cb_componentId = ''postgresql'', baseCost = 25, scaledCost = 62.3\<rparr>]\<rparr>"
  by (simp add: calculate_architecture_cost_def lookup_nextjs lookup_fastapi lookup_postgresql
      cost_postgresql cost_nextjs cost_fastapi py_round_def round_half_even_def)

subsection \<open>Which identifiers get a node\<close>

lemma layers_loop_filter:
  "layers_loop ids layers = layers_loop (filter resolvable ids) layers"
  by (induction ids arbitrary: layers) (auto simp: resolvable_def split: option.splits)

lemma cost_loop_filter:
  "cost_loop sc ids st = cost_loop sc (filter resolvable ids) st"
proof (induction ids arbitrary: st)
  case Nil
  then show ?case by simp
next
  case (Cons i ids)
  obtain bd tot where st: "st = (bd, tot)" by (cases st)
  show ?case
    by (cases "get_component_by_id i")
       (simp_all add: st resolvable_def Cons.IH split: prod.splits)
qed

lemma cost_loop_ids:
  "map cb_componentId (fst (cost_loop sc ids (bd, tot)))
     = map cb_componentId bd @ filter resolvable ids"
proof (induction ids arbitrary: bd tot)
  case Nil
  then show ?case by simp
next
  case (Cons i ids)
  show ?case
    by (cases "get_component_by_id i")
       (simp_all add: resolvable_def Cons.IH split: prod.splits)
qed

lemma breakdown_ids:
  "map cb_componentId (breakdown (calculate_architecture_cost ids sc)) = filter resolvable ids"
proof -
  obtain bd tot where l: "cost_loop sc ids ([], 0) = (bd, tot)"
    by (cases "cost_loop sc ids ([], 0)")
  from cost_loop_ids [of sc ids "[]" 0] l show ?thesis
    by (simp add: calculate_architecture_cost_def)
qed

lemma dict_append_Cons:
  "dict_append ((a, b) # d) k v =
     (if a = k then (k, b @ [v]) # d else (a, b) # dict_append d k v)"
  by (simp add: dict_append_def)

lemma dict_append_Nil: "dict_append [] k v = [(k, [v])]"
  by (simp add: dict_append_def)

lemma mset_dict_append:
  "mset (concat (map snd (dict_append d k v))) = add_mset v (mset (concat (map snd d)))"
proof (induction d)
  case Nil
  then show ?case by (simp add: dict_append_Nil)
next
  case (Cons p d)
  obtain a b where p: "p = (a, b)" by (cases p)
  show ?case by (simp add: p dict_append_Cons Cons.IH)
qed

lemma distinct_dict_append:
  "distinct (map fst d) \<Longrightarrow> distinct (map fst (dict_append d k v))"
  by (simp add: dict_append_def distinct_update)

lemma layers_loop_distinct:
  "distinct (map fst layers) \<Longrightarrow> distinct (map fst (layers_loop ids layers))"
  by (induction ids arbitrary: layers)
     (auto simp: distinct_dict_append Let_def split: option.splits)

lemma layers_loop_mset:
  "mset (concat (map snd (layers_loop ids layers)))
     = mset (concat (map snd layers)) + mset (filter resolvable ids)"
  by (induction ids arbitrary: layers)
     (auto simp: mset_dict_append resolvable_def Let_def split: option.splits)

lemma create_node_None:
  "create_node_from_component toks k cid pos = None \<longleftrightarrow> \<not> resolvable cid"
  by (simp add: create_node_from_component_def resolvable_def Let_def split: option.splits)

lemma create_node_Some:
  "create_node_from_component toks k cid pos = Some node \<Longrightarrow>
     componentId (data node) = cid \<and> position node = pos \<and> resolvable cid"
  by (auto simp: create_node_from_component_def resolvable_def Let_def split: option.splits)

lemma nodes_in_layer_ids:
  "map (\<lambda>n. componentId (data n)) (fst (nodes_in_layer toks l idx comps (ns, k)))
     = map (\<lambda>n. componentId (data n)) ns @ filter resolvable comps"
proof (induction comps arbitrary: idx ns k)
  case Nil
  then show ?case by simp
next
  case (Cons c comps)
  show ?case
  proof (cases "create_node_from_component toks k c (calculate_node_position l (int idx))")
    case None
    then have "\<not> resolvable c" by (simp add: create_node_None)
    with None show ?thesis by (simp add: Cons.IH)
  next
    case (Some node)
    from create_node_Some [OF Some] Some show ?thesis by (simp add: Cons.IH)
  qed
qed

lemma nodes_loop_ids:
  assumes "\<forall>l \<in> set keys. map_of layers l \<noteq> None"
  shows "\<exists>st'. nodes_loop toks layers keys st = Inr st'
           \<and> map (\<lambda>n. componentId (data n)) (fst st')
               = map (\<lambda>n. componentId (data n)) (fst st)
                 @ concat (map (\<lambda>l. filter resolvable (the (map_of layers l))) keys)"
  using assms
proof (induction keys arbitrary: st)
  case Nil
  then show ?case by simp
next
  case (Cons l keys)
  from Cons.prems obtain comps where c: "map_of layers l = Some comps" by auto
  obtain ns k where st: "st = (ns, k)" by (cases st)
  let ?st1 = "nodes_in_layer toks l 0 comps (ns, k)"
  from Cons.prems have "\<forall>l \<in> set keys. map_of layers l \<noteq> None" by simp
  from Cons.IH [OF this, of ?st1] obtain st' where
    r: "nodes_loop toks layers keys ?st1 = Inr st'" and
    m: "map (\<lambda>n. componentId (data n)) (fst st')
          = map (\<lambda>n. componentId (data n)) (fst ?st1)
            @ concat (map (\<lambda>l. filter resolvable (the (map_of layers l))) keys)"
    by blast
  show ?case
    using r m by (simp add: c st nodes_in_layer_ids)
qed

lemma values_by_keys:
  "distinct (map fst d) \<Longrightarrow> map (\<lambda>l. the (map_of d l)) (map fst d) = map snd d"
proof (induction d)
  case Nil
  then show ?case by simp
next
  case (Cons p d)
  obtain a b where p: "p = (a, b)" by (cases p)
  from Cons.prems have "a \<notin> fst ` set d" and "distinct (map fst d)" by (auto simp: p)
  then show ?case
    using Cons.IH by (auto simp: p)
qed

lemma mset_concat_map:
  "mset (concat (map f xs)) = (\<Sum>x\<in>#mset xs. mset (f x))"
  by (induction xs) auto

lemma mset_concat_sorted_keys:
  assumes "distinct (map fst d)"
  shows "mset (concat (map (\<lambda>l. filter P (the (map_of d l))) (sort (map fst d))))
           = filter_mset P (mset (concat (map snd d)))"
proof -
  have "mset (concat (map (\<lambda>l. filter P (the (map_of d l))) (sort (map fst d))))
          = (\<Sum>l\<in>#mset (map fst d). mset (filter P (the (map_of d l))))"
    by (simp only: mset_concat_map mset_sort)
  also have "\<dots> = mset (concat (map (\<lambda>l. filter P (the (map_of d l))) (map fst d)))"
    by (simp only: mset_concat_map)
  also have "map (\<lambda>l. filter P (the (map_of d l))) (map fst d)
               = map (filter P) (map (\<lambda>l. the (map_of d l)) (map fst d))"
    by simp
  also have "\<dots> = map (filter P) (map snd d)"
    by (simp only: values_by_keys [OF assms])
  also have "mset (concat (map (filter P) (map snd d))) = filter_mset P (mset (concat (map snd d)))"
    by (induction d) auto
  finally show ?thesis .
qed

lemma generate_result:
  "\<exists>ns k. generate_architecture_from_components iter toks ids sc =
       Inr \<lparr>nodes = ns, edges = generate_edges iter toks k ns, scope = sc,
            costEstimate = Some (calculate_architecture_cost ids sc), timestamp = None\<rparr>
     \<and> mset (map (\<lambda>n. componentId (data n)) ns) = mset (filter resolvable ids)"
proof -
  let ?layers = "layers_loop ids []"
  have d: "distinct (map fst ?layers)"
    by (rule layers_loop_distinct) simp
  have "\<forall>l \<in> set (sort (map fst ?layers)). map_of ?layers l \<noteq> None"
    by (auto simp: map_of_eq_None_iff)
  from nodes_loop_ids [OF this, of toks "([], 0)"] obtain st' where
    r: "nodes_loop toks ?layers (sort (map fst ?layers)) ([], 0) = Inr st'" and
    m: "map (\<lambda>n. componentId (data n)) (fst st')
          = concat (map (\<lambda>l. filter resolvable (the (map_of ?layers l))) (sort (map fst ?layers)))"
    by auto
  obtain ns k where st': "st' = (ns, k)" by (cases st')
  have "mset (map (\<lambda>n. componentId (data n)) ns)
          = filter_mset resolvable (mset (concat (map snd ?layers)))"
    using m by (simp add: st' mset_concat_sorted_keys [OF d])
  also have "\<dots> = mset (filter resolvable ids)"
    by (simp add: layers_loop_mset filter_filter_mset)
  finally have ms: "mset (map (\<lambda>n. componentId (data n)) ns) = mset (filter resolvable ids)" .
  have "generate_architecture_from_components iter toks ids sc =
       Inr \<lparr>nodes = ns, edges = generate_edges iter toks k ns, scope = sc,
            costEstimate = Some (calculate_architecture_cost ids sc), timestamp = None\<rparr>"
    using r by (simp add: generate_architecture_from_components_def Let_def st')
  with ms show ?thesis by blast
qed

lemma generate_filter:
  "generate_architecture_from_components iter toks ids sc
     = generate_architecture_from_components iter toks (filter resolvable ids) sc"
proof -
  have c: "calculate_architecture_cost ids sc
             = calculate_architecture_cost (filter resolvable ids) sc"
    using cost_loop_filter [of sc ids "([], 0)"]
    by (simp add: calculate_architecture_cost_def)
  have l: "layers_loop ids [] = layers_loop (filter resolvable ids) []"
    by (rule layers_loop_filter)
  show ?thesis
    unfolding generate_architecture_from_components_def
    by (simp only: c [symmetric] l [symmetric])
qed

subsection \<open>The worked example\<close>

lemma example_generate:
  "\<exists>n0 n1 n2.
     generate_architecture_from_components iter toks
         [''nextjs'', ''fastapi'', ''postgresql''] sample_scope =
       Inr \<lparr>nodes = [n0, n1, n2], edges = generate_edges iter toks 3 [n0, n1, n2],
            scope = sample_scope,
            costEstimate = Some (calculate_architecture_cost
                                   [''nextjs'', ''fastapi'', ''postgresql''] sample_scope),
            timestamp = None\<rparr>
     \<and> componentId (data n0) = ''nextjs'' \<and> category (data n0) = ''frontend''
     \<and> componentId (data n1) = ''fastapi'' \<and> category (data n1) = ''backend''
     \<and> componentId (data n2) = ''postgresql'' \<and> category (data n2) = ''database''
     \<and> position n0 = \<lparr>pos_x = 100, pos_y = 100\<rparr>
     \<and> position n1 = \<lparr>pos_x = 700, pos_y = 100\<rparr>
     \<and> position n2 = \<lparr>pos_x = 1000, pos_y = 100\<rparr>"
proof -
  have s: "sort (map fst [(0::int, [''nextjs'']), (2, [''fastapi'']), (3, [''postgresql''])])
             = [0, 2, 3]"
    by simp
  show ?thesis
    unfolding generate_architecture_from_components_def example_layers Let_def s example_nodes
    by simp
qed

lemma edge_between:
  assumes "set_iteration iter" and "s \<in> set ns"
    and "c \<in> get_valid_targets (category (data s))"
    and "first_of_category ns c = Some t"
  shows "\<exists>e \<in> set (generate_edges iter toks k ns). source e = node_id s \<and> target e = node_id t"
proof -
  have "first_match_edge s t \<in> set (map edge_core (generate_edges iter toks k ns))"
    using first_match_edge_present [OF assms] by (simp only: generate_edges_core)
  then obtain e where "e \<in> set (generate_edges iter toks k ns)"
    and "edge_core e = first_match_edge s t"
    by auto
  then show ?thesis
    by (auto simp: edge_core_def first_match_edge_def split: if_splits)
qed

text \<open>
  Claim C1.  For the identifiers nextjs, fastapi, postgresql and the scope users = 1000,
  trafficLevel = 3, dataVolumeGB = 100, regions = 1, availability = 99.9, whatever the
  random tokens and the iteration order: the call returns exactly three nodes, for
  nextjs, fastapi and postgresql, at (100, 100), (700, 100) and (1000, 100); the edges
  contain one from the frontend node to the backend node and one from the backend node
  to the database node; the breakdown has the scaled costs 0, 0 and 62.3, and
  62.3 = 25 * 1.0 * 2.0 * 1.0 * 1.2 + 100 * 0.023 with the four multipliers of the scope.
\<close>

theorem worked_example:
  assumes "set_iteration iter"
  shows "\<exists>n0 n1 n2 es ce.
     generate_architecture_from_components iter toks
         [''nextjs'', ''fastapi'', ''postgresql'']
         \<lparr>users = 1000, trafficLevel = 3, dataVolumeGB = 100, regions = 1,
          availability = 99.9\<rparr> =
       Inr \<lparr>nodes = [n0, n1, n2], edges = es,
            scope = \<lparr>users = 1000, trafficLevel = 3, dataVolumeGB = 100, regions = 1,
                     availability = 99.9\<rparr>,
            costEstimate = Some ce, timestamp = None\<rparr>
     \<and> componentId (data n0) = ''nextjs'' \<and> position n0 = \<lparr>pos_x = 100, pos_y = 100\<rparr>
     \<and> componentId (data n1) = ''fastapi'' \<and> position n1 = \<lparr>pos_x = 700, pos_y = 100\<rparr>
     \<and> componentId (data n2) = ''postgresql'' \<and> position n2 = \<lparr>pos_x = 1000, pos_y = 100\<rparr>
     \<and> (\<exists>e \<in> set es. source e = node_id n0 \<and> target e = node_id n1)
     \<and> (\<exists>e \<in> set es. source e = node_id n1 \<and> target e = node_id n2)
     \<and> map (\<lambda>b. (cb_componentId b, scaledCost b)) (breakdown ce)
         = [(''nextjs'', 0), (''fastapi'', 0), (''postgresql'', 62.3)]
     \<and> 25 * get_user_multiplier 1000 * get_traffic_multiplier 3 * get_region_multiplier 1
           * get_availability_multiplier 99.9 + 100 * DATA_COST_PER_GB = 62.3"
proof -
  define k :: nat where "k = 3"
  from example_generate [of iter toks] obtain n0 n1 n2 where
    g: "generate_architecture_from_components iter toks
          [''nextjs'', ''fastapi'', ''postgresql''] sample_scope =
        Inr \<lparr>nodes = [n0, n1, n2], edges = generate_edges iter toks k [n0, n1, n2],
             scope = sample_scope,
             costEstimate = Some (calculate_architecture_cost
                                    [''nextjs'', ''fastapi'', ''postgresql''] sample_scope),
             timestamp = None\<rparr>" and
    c0: "componentId (data n0) = ''nextjs''" "category (data n0) = ''frontend''" and
    c1: "componentId (data n1) = ''fastapi''" "category (data n1) = ''backend''" and
    c2: "componentId (data n2) = ''postgresql''" "category (data n2) = ''database''" and
    p: "position n0 = \<lparr>pos_x = 100, pos_y = 100\<rparr>"
       "position n1 = \<lparr>pos_x = 700, pos_y = 100\<rparr>"
       "position n2 = \<lparr>pos_x = 1000, pos_y = 100\<rparr>"
    unfolding k_def by blast
  let ?ns = "[n0, n1, n2]"
  have f1: "first_of_category ?ns ''backend'' = Some n1"
    by (simp add: first_of_category_def c0 c1)
  have f2: "first_of_category ?ns ''database'' = Some n2"
    by (simp add: first_of_category_def c0 c1 c2)
  have v1: "''backend'' \<in> get_valid_targets (category (data n0))"
    by (simp add: c0 valid_target_iff VALID_CONNECTIONS_def)
  have v2: "''database'' \<in> get_valid_targets (category (data n1))"
    by (simp add: c1 valid_target_iff VALID_CONNECTIONS_def)
  have e1: "\<exists>e \<in> set (generate_edges iter toks k ?ns). source e = node_id n0 \<and> target e = node_id n1"
    by (rule edge_between [OF assms _ v1 f1]) simp
  have e2: "\<exists>e \<in> set (generate_edges iter toks k ?ns). source e = node_id n1 \<and> target e = node_id n2"
    by (rule edge_between [OF assms _ v2 f2]) simp
  have b: "map (\<lambda>b. (cb_componentId b, scaledCost b))
             (breakdown (calculate_architecture_cost
                           [''nextjs'', ''fastapi'', ''postgresql''] sample_scope))
           = [(''nextjs'', 0), (''fastapi'', 0), (''postgresql'', 62.3)]"
    by (simp add: example_cost)
  have m: "25 * get_user_multiplier 1000 * get_traffic_multiplier 3 * get_region_multiplier 1
           * get_availability_multiplier 99.9 + 100 * DATA_COST_PER_GB = 62.3"
    using sample_multipliers by (simp add: sample_scope_def DATA_COST_PER_GB_def)
  show ?thesis
    unfolding sample_scope_def [symmetric]
    by (rule exI [of _ n0], rule exI [of _ n1], rule exI [of _ n2],
        rule exI [of _ "generate_edges iter toks k [n0, n1, n2]"],
        rule exI [of _ "calculate_architecture_cost
                          [''nextjs'', ''fastapi'', ''postgresql''] sample_scope"])
       (simp add: g c0 c1 c2 p e1 e2 b m)
qed

theorem worked_example_witness:
  "set_iteration sample_iter
   \<and> (\<exists>n0 n1 n2 es ce.
     generate_architecture_from_components sample_iter sample_toks
         [''nextjs'', ''fastapi'', ''postgresql'']
         \<lparr>users = 1000, trafficLevel = 3, dataVolumeGB = 100, regions = 1,
          availability = 99.9\<rparr> =
       Inr \<lparr>nodes = [n0, n1, n2], edges = es,
            scope = \<lparr>users = 1000, trafficLevel = 3, dataVolumeGB = 100, regions = 1,
                     availability = 99.9\<rparr>,
            costEstimate = Some ce, timestamp = None\<rparr>
     \<and> componentId (data n0) = ''nextjs'' \<and> position n0 = \<lparr>pos_x = 100, pos_y = 100\<rparr>
     \<and> componentId (data n1) = ''fastapi'' \<and> position n1 = \<lparr>pos_x = 700, pos_y = 100\<rparr>
     \<and> componentId (data n2) = ''postgresql'' \<and> position n2 = \<lparr>pos_x = 1000, pos_y = 100\<rparr>
     \<and> (\<exists>e \<in> set es. source e = node_id n0 \<and> target e = node_id n1)
     \<and> (\<exists>e \<in> set es. source e = node_id n1 \<and> target e = node_id n2)
     \<and> map (\<lambda>b. (cb_componentId b, scaledCost b)) (breakdown ce)
         = [(''nextjs'', 0), (''fastapi'', 0), (''postgresql'', 62.3)]
     \<and> 25 * get_user_multiplier 1000 * get_traffic_multiplier 3 * get_region_multiplier 1
           * get_availability_multiplier 99.9 + 100 * DATA_COST_PER_GB = 62.3)"
  by (rule conjI [OF sample_iter_ok worked_example [OF sample_iter_ok]])

subsection \<open>Unresolvable and repeated identifiers\<close>

text \<open>
  Claim C4.  Identifiers that the catalog does not have are dropped without an error:
  the result of \<open>generate_architecture_from_components\<close>, and that of
  \<open>calculate_architecture_cost\<close>, is the one for the list without them; the call
  returns a result (it raises nothing), every node of which belongs to a resolvable
  identifier of the input, and the breakdown lists the resolvable identifiers of the
  input and no other.  On the empty list the result has no node, no edge, and the
  total 0.
\<close>

theorem unresolvable_ids_excluded:
  "generate_architecture_from_components iter toks ids sc
     = generate_architecture_from_components iter toks (filter resolvable ids) sc
   \<and> calculate_architecture_cost ids sc
       = calculate_architecture_cost (filter resolvable ids) sc
   \<and> (\<exists>a ce. generate_architecture_from_components iter toks ids sc = Inr a
         \<and> costEstimate a = Some ce
         \<and> (\<forall>n \<in> set (nodes a). resolvable (componentId (data n))
                                   \<and> componentId (data n) \<in> set ids)
         \<and> map cb_componentId (breakdown ce) = filter resolvable ids)
   \<and> generate_architecture_from_components iter toks [] sc
       = Inr \<lparr>nodes = [], edges = [], scope = sc,
              costEstimate = Some \<lparr>total = 0, breakdown = []\<rparr>, timestamp = None\<rparr>"
proof (intro conjI)
  show "generate_architecture_from_components iter toks ids sc
     = generate_architecture_from_components iter toks (filter resolvable ids) sc"
    by (rule generate_filter)
  show "calculate_architecture_cost ids sc
       = calculate_architecture_cost (filter resolvable ids) sc"
    using cost_loop_filter [of sc ids "([], 0)"]
    by (simp add: calculate_architecture_cost_def)
  from generate_result [of iter toks ids sc] obtain ns k where
    g: "generate_architecture_from_components iter toks ids sc =
       Inr \<lparr>nodes = ns, edges = generate_edges iter toks k ns, scope = sc,
            costEstimate = Some (calculate_architecture_cost ids sc), timestamp = None\<rparr>" and
    m: "mset (map (\<lambda>n. componentId (data n)) ns) = mset (filter resolvable ids)"
    by blast
  from m have "set (map (\<lambda>n. componentId (data n)) ns) = set (filter resolvable ids)"
    by (rule mset_eq_setD)
  then have "\<forall>n \<in> set ns. resolvable (componentId (data n)) \<and> componentId (data n) \<in> set ids"
    by auto
  with g show "\<exists>a ce. generate_architecture_from_components iter toks ids sc = Inr a
         \<and> costEstimate a = Some ce
         \<and> (\<forall>n \<in> set (nodes a). resolvable (componentId (data n))
                                   \<and> componentId (data n) \<in> set ids)
         \<and> map cb_componentId (breakdown ce) = filter resolvable ids"
    by (simp add: breakdown_ids)
  show "generate_architecture_from_components iter toks [] sc
       = Inr \<lparr>nodes = [], edges = [], scope = sc,
              costEstimate = Some \<lparr>total = 0, breakdown = []\<rparr>, timestamp = None\<rparr>"
    by (simp add: generate_architecture_from_components_def generate_edges_def
        calculate_architecture_cost_def py_round_0)
qed

lemma sample_filter:
  "filter resolvable [''nextjs'', ''no-such-component'', ''postgresql'']
     = [''nextjs'', ''postgresql'']"
  by (simp add: resolvable_def lookup_nextjs lookup_unknown lookup_postgresql)

theorem unresolvable_ids_excluded_witness:
  "\<not> resolvable ''no-such-component''
   \<and> generate_architecture_from_components sample_iter sample_toks
        [''nextjs'', ''no-such-component'', ''postgresql''] sample_scope
       = generate_architecture_from_components sample_iter sample_toks
           [''nextjs'', ''postgresql''] sample_scope
   \<and> (\<exists>a ce. generate_architecture_from_components sample_iter sample_toks
                 [''nextjs'', ''no-such-component'', ''postgresql''] sample_scope = Inr a
         \<and> costEstimate a = Some ce
         \<and> map cb_componentId (breakdown ce) = [''nextjs'', ''postgresql''])
   \<and> placed_components (generate_architecture_from_components sample_iter sample_toks
        [''nextjs'', ''no-such-component'', ''postgresql''] sample_scope)
       = [(''nextjs'', 100, 100), (''postgresql'', 1000, 100)]"
proof -
  note t = unresolvable_ids_excluded [of sample_iter sample_toks
            "[''nextjs'', ''no-such-component'', ''postgresql'']" sample_scope]
  have u: "\<not> resolvable ''no-such-component''"
    by (simp add: resolvable_def lookup_unknown)
  from t have a: "generate_architecture_from_components sample_iter sample_toks
        [''nextjs'', ''no-such-component'', ''postgresql''] sample_scope
       = generate_architecture_from_components sample_iter sample_toks
           [''nextjs'', ''postgresql''] sample_scope"
    by (simp only: sample_filter)
  from t have "\<exists>a ce. generate_architecture_from_components sample_iter sample_toks
                 [''nextjs'', ''no-such-component'', ''postgresql''] sample_scope = Inr a
         \<and> costEstimate a = Some ce
         \<and> (\<forall>n \<in> set (nodes a). resolvable (componentId (data n))
               \<and> componentId (data n) \<in> set [''nextjs'', ''no-such-component'', ''postgresql''])
         \<and> map cb_componentId (breakdown ce)
             = filter resolvable [''nextjs'', ''no-such-component'', ''postgresql'']"
    by (elim conjE)
  then obtain a ce where
    A: "generate_architecture_from_components sample_iter sample_toks
        [''nextjs'', ''no-such-component'', ''postgresql''] sample_scope = Inr a" and
    B: "costEstimate a = Some ce" and
    C: "map cb_componentId (breakdown ce)
       = filter resolvable [''nextjs'', ''no-such-component'', ''postgresql'']"
    by (elim exE conjE)
  have b: "\<exists>a ce. generate_architecture_from_components sample_iter sample_toks
                 [''nextjs'', ''no-such-component'', ''postgresql''] sample_scope = Inr a
         \<and> costEstimate a = Some ce
         \<and> map cb_componentId (breakdown ce) = [''nextjs'', ''postgresql'']"
    by (intro exI conjI) (rule A, rule B, rule C [unfolded sample_filter])
  have c: "placed_components (generate_architecture_from_components sample_iter sample_toks
        [''nextjs'', ''postgresql''] sample_scope)
       = [(''nextjs'', 100, 100), (''postgresql'', 1000, 100)]"
    by code_simp
  show ?thesis
    using u a b c by simp
qed

text \<open>
  Claim C7, as the code has it.  Repeated identifiers are not merged: the call returns a
  result whose nodes carry, as a multiset, the resolvable identifiers of the input, so
  there are as many nodes as resolvable entries of the input, and a resolvable
  identifier that occurs \<open>m\<close> times in the input has \<open>m\<close> nodes.
\<close>

theorem duplicate_ids_kept:
  "\<exists>a. generate_architecture_from_components iter toks ids sc = Inr a
     \<and> mset (map (\<lambda>n. componentId (data n)) (nodes a)) = mset (filter resolvable ids)
     \<and> length (nodes a) = length (filter resolvable ids)
     \<and> (\<forall>c. resolvable c \<longrightarrow>
           length (filter (\<lambda>n. componentId (data n) = c) (nodes a))
             = length (filter (\<lambda>i. i = c) ids))"
proof -
  from generate_result [of iter toks ids sc] obtain ns k where
    g: "generate_architecture_from_components iter toks ids sc =
       Inr \<lparr>nodes = ns, edges = generate_edges iter toks k ns, scope = sc,
            costEstimate = Some (calculate_architecture_cost ids sc), timestamp = None\<rparr>" and
    m: "mset (map (\<lambda>n. componentId (data n)) ns) = mset (filter resolvable ids)"
    by blast
  from m have l: "length ns = length (filter resolvable ids)"
    using mset_eq_length by fastforce
  have "length (filter (\<lambda>n. componentId (data n) = c) ns) = length (filter (\<lambda>i. i = c) ids)"
    if r: "resolvable c" for c
  proof -
    have "length (filter (\<lambda>n. componentId (data n) = c) ns)
            = count (mset (map (\<lambda>n. componentId (data n)) ns)) c"
      by (induction ns) auto
    also have "\<dots> = count (mset (filter resolvable ids)) c"
      by (simp only: m)
    also have "\<dots> = length (filter (\<lambda>i. i = c) ids)"
      using r by (induction ids) auto
    finally show ?thesis .
  qed
  with g m l show ?thesis by simp
qed

theorem duplicate_ids_kept_witness:
  "resolvable ''nextjs''
   \<and> (\<exists>a. generate_architecture_from_components sample_iter sample_toks
             [''nextjs'', ''nextjs''] sample_scope = Inr a
        \<and> length (nodes a) = 2
        \<and> length (filter (\<lambda>n. componentId (data n) = ''nextjs'') (nodes a)) = 2)"
proof -
  have r: "resolvable ''nextjs''"
    by (simp add: resolvable_def lookup_nextjs)
  from duplicate_ids_kept [of sample_iter sample_toks "[''nextjs'', ''nextjs'']" sample_scope]
  show ?thesis
    using r by auto
qed

text \<open>
  The claim C7 as stated fails: passing nextjs twice gives two nodes, stacked in layer 0
  at (100, 100) and (100, 250), where passing it once gives one.
\<close>

theorem duplicates_collapse_counterexample:
  "placed_components (generate_architecture_from_components sample_iter sample_toks
       [''nextjs'', ''nextjs''] sample_scope)
     = [(''nextjs'', 100, 100), (''nextjs'', 100, 250)]
   \<and> placed_components (generate_architecture_from_components sample_iter sample_toks
       [''nextjs''] sample_scope)
     = [(''nextjs'', 100, 100)]"
  by code_simp

section \<open>The carbon model\<close>

subsection \<open>Rounding is close and monotone\<close>

lemma round_half_even_close:
  "\<bar>of_int (round_half_even v) - v\<bar> \<le> 1 / 2"
  unfolding round_half_even_def Let_def by (auto; linarith)

lemma round_half_even_mono:
  assumes "v \<le> w"
  shows "round_half_even v \<le> round_half_even w"
proof -
  have f: "\<lfloor>v\<rfloor> \<le> \<lfloor>w\<rfloor>" using assms by (rule floor_mono)
  show ?thesis
  proof (cases "\<lfloor>v\<rfloor> = \<lfloor>w\<rfloor>")
    case True
    with assms show ?thesis
      unfolding round_half_even_def Let_def by auto
  next
    case False
    with f have "\<lfloor>v\<rfloor> + 1 \<le> \<lfloor>w\<rfloor>" by simp
    moreover have "round_half_even v \<le> \<lfloor>v\<rfloor> + 1"
      unfolding round_half_even_def Let_def by auto
    moreover have "\<lfloor>w\<rfloor> \<le> round_half_even w"
      unfolding round_half_even_def Let_def by auto
    ultimately show ?thesis by linarith
  qed
qed

lemma py_round_close: "\<bar>py_round v nd - v\<bar> \<le> 1 / (2 * 10 ^ nd)"
proof -
  have p: "(0::real) < 10 ^ nd" by simp
  have "py_round v nd - v = (of_int (round_half_even (v * 10 ^ nd)) - v * 10 ^ nd) / 10 ^ nd"
    by (simp add: py_round_def diff_divide_distrib)
  then have "\<bar>py_round v nd - v\<bar>
               = \<bar>of_int (round_half_even (v * 10 ^ nd)) - v * 10 ^ nd\<bar> / 10 ^ nd"
    by (simp add: abs_divide del: of_int_diff)
  also have "\<dots> \<le> (1 / 2) / 10 ^ nd"
    by (rule divide_right_mono [OF round_half_even_close]) simp
  finally show ?thesis by simp
qed

lemma py_round_mono: "v \<le> w \<Longrightarrow> py_round v nd \<le> py_round w nd"
  unfolding py_round_def
  by (intro divide_right_mono) (auto intro!: round_half_even_mono mult_right_mono)

subsection \<open>The report\<close>

lemma power_draw_lower:
  "5 \<le> (case map_of COMPONENT_POWER_DRAW cat of Some w \<Rightarrow> w | None \<Rightarrow> 30.0)"
  by (simp add: COMPONENT_POWER_DRAW_def)

lemma scaled_power_lower:
  fixes pd tm um :: real
  assumes "5 \<le> pd" and "1 / 3 \<le> tm"
  shows "5 / 12 \<le> (if ml then pd * max tm 0.5 * max um 0.5 * tm
                     else pd * max tm 0.5 * max um 0.5)"
proof -
  have a: "1 / 2 \<le> max tm 0.5" and b: "1 / 2 \<le> max um 0.5" by simp_all
  have p0: "0 \<le> pd" using assms(1) by simp
  have h: "(0::real) \<le> 1 / 2" by simp
  have p1: "5 * (1 / 2) \<le> pd * max tm 0.5"
    by (rule mult_mono [OF assms(1) a p0 h])
  then have q1: "0 \<le> pd * max tm 0.5" by simp
  have p2: "5 * (1 / 2) * (1 / 2) \<le> pd * max tm 0.5 * max um 0.5"
    by (rule mult_mono [OF p1 b q1 h])
  then have q2: "0 \<le> pd * max tm 0.5 * max um 0.5" by simp
  have h3: "(0::real) \<le> 1 / 3" by simp
  have p3: "5 * (1 / 2) * (1 / 2) * (1 / 3) \<le> pd * max tm 0.5 * max um 0.5 * tm"
    by (rule mult_mono [OF p2 assms(2) q2 h3])
  from p2 p3 show ?thesis by simp
qed

lemma carbon_loop_totals:
  assumes "1 / 3 \<le> tm"
  shows "carbon_loop ci tm um ns (bd, te, tc) = (bd', te', tc') \<Longrightarrow>
           tc' - tc = (te' - te) * ci / 1000 \<and> 3 / 10 * real (length ns) \<le> te' - te"
proof (induction ns arbitrary: bd te tc)
  case Nil
  then show ?case by simp
next
  case (Cons n ns)
  define pd where "pd = (case map_of COMPONENT_POWER_DRAW (category (data n)) of
                           Some w \<Rightarrow> w | None \<Rightarrow> 30.0)"
  define sp where "sp = (if category (data n) = ''ml''
                         then pd * max tm 0.5 * max um 0.5 * tm
                         else pd * max tm 0.5 * max um 0.5)"
  define e where "e = sp * 730 / 1000"
  define b where "b = \<lparr>component_id = componentId (data n), component_name = label (data n),
                         cc_category = category (data n), energy_kwh = py_round e 4,
                         carbon_kg = py_round (e * ci / 1000) 4,
                         power_draw_watts = py_round sp 2\<rparr>"
  have "5 \<le> pd" unfolding pd_def by (rule power_draw_lower)
  then have "5 / 12 \<le> sp" unfolding sp_def using assms by (rule scaled_power_lower)
  then have el: "3 / 10 \<le> e" unfolding e_def by simp
  have step: "carbon_loop ci tm um (n # ns) (bd, te, tc)
                = carbon_loop ci tm um ns (bd @ [b], te + e, tc + e * ci / 1000)"
    by (simp add: Let_def pd_def sp_def e_def b_def)
  with Cons.prems have "carbon_loop ci tm um ns (bd @ [b], te + e, tc + e * ci / 1000)
                          = (bd', te', tc')"
    by simp
  from Cons.IH [OF this]
  have 1: "tc' - (tc + e * ci / 1000) = (te' - (te + e)) * ci / 1000"
    and 2: "3 / 10 * real (length ns) \<le> te' - (te + e)"
    by simp_all
  from 1 have "tc' - tc = (te' - te) * ci / 1000"
    by (simp add: field_simps)
  moreover from 2 el have "3 / 10 * real (length (n # ns)) \<le> te' - te"
    by (simp add: field_simps)
  ultimately show ?case by simp
qed

lemma region_intensity:
  "map_of REGION_CARBON_INTENSITY ''default'' = Some 400"
  "map_of REGION_CARBON_INTENSITY ''eu-north-1'' = Some 8"
  "map_of REGION_CARBON_INTENSITY ''ap-south-1'' = Some 708"
  by (simp_all add: REGION_CARBON_INTENSITY_def)

lemma carbon_loop_energy:
  "carbon_loop ci tm um ns (bd, te, tc) = (bd1, te1, tc1) \<Longrightarrow>
   carbon_loop ci' tm um ns (bd', te, tc') = (bd2, te2, tc2) \<Longrightarrow> te1 = te2"
proof (induction ns arbitrary: bd te tc bd' tc')
  case Nil
  then show ?case by simp
next
  case (Cons n ns)
  from Cons.prems show ?case
    by (simp add: Let_def) (rule Cons.IH)
qed

lemma generate_report_eval:
  assumes "0 \<le> users (scope arch)"
    and "carbon_loop (intensity_of reg) (of_int (trafficLevel (scope arch)) / 3)
           (log 10 (of_int (users (scope arch) + 1)) / 2) (nodes arch) ([], 0, 0) = (bd, E, TC)"
  shows "generate_report cc arch reg uid =
           Inr \<lparr>architecture_json = arch,
                metrics = \<lparr>m_energy_kwh = py_round E 4, m_carbon_kg = py_round TC 4,
                           carbon_intensity = intensity_of reg, region = reg,
                           cost_usd = py_round (cc (nodes arch) (scope arch)) 2\<rparr>,
                component_breakdown = bd, user_id = uid\<rparr>"
  using assms by (simp add: generate_report_def region_intensity intensity_of_def Let_def)

lemma report_carbon:
  assumes u: "0 \<le> users (scope arch)" and t: "1 \<le> trafficLevel (scope arch)"
  shows "\<exists>E. 3 / 10 * real (length (nodes arch)) \<le> E \<and>
           (\<forall>reg. \<exists>r. generate_report cc arch reg uid = Inr r
               \<and> carbon_intensity (metrics r) = intensity_of reg
               \<and> m_carbon_kg (metrics r) = py_round (E * intensity_of reg / 1000) 4)"
proof -
  define tm :: real where "tm = of_int (trafficLevel (scope arch)) / 3"
  define um :: real where "um = log 10 (of_int (users (scope arch) + 1)) / 2"
  have tm: "1 / 3 \<le> tm" using t by (simp add: tm_def)
  obtain bd0 E tc0 where l0: "carbon_loop 0 tm um (nodes arch) ([], 0, 0) = (bd0, E, tc0)"
    by (cases "carbon_loop 0 tm um (nodes arch) ([], 0, 0)")
  from carbon_loop_totals [OF tm l0] have EL: "3 / 10 * real (length (nodes arch)) \<le> E"
    by simp
  have "\<exists>r. generate_report cc arch reg uid = Inr r
               \<and> carbon_intensity (metrics r) = intensity_of reg
               \<and> m_carbon_kg (metrics r) = py_round (E * intensity_of reg / 1000) 4" for reg
  proof -
    obtain bd E' TC where
      l: "carbon_loop (intensity_of reg) tm um (nodes arch) ([], 0, 0) = (bd, E', TC)"
      by (cases "carbon_loop (intensity_of reg) tm um (nodes arch) ([], 0, 0)")
    from carbon_loop_energy [OF l l0] have e: "E' = E" .
    from carbon_loop_totals [OF tm l] have tc: "TC = E * intensity_of reg / 1000"
      by (simp add: e)
    from generate_report_eval [OF u l [unfolded tm_def um_def], of cc uid]
    show ?thesis by (simp add: tc)
  qed
  with EL show ?thesis by blast
qed

text \<open>
  Claim C9.  For every architecture with at least one node and a scope with
  \<open>users \<ge> 0\<close> and \<open>trafficLevel \<ge> 1\<close> (the specification's scope has a positive
  user count and a traffic level from 1 to 5), the reports for the regions eu-north-1
  (intensity 8.0) and ap-south-1 (intensity 708.0) are both produced, and the first has
  a strictly lower \<^verbatim>\<open>carbon_kg\<close> total.  More generally the total is monotone in the
  intensity: of two reports for the same architecture, the one with the lower intensity
  has the lower or equal total.
\<close>

theorem greener_region_lower_carbon:
  assumes "nodes arch \<noteq> []" and "0 \<le> users (scope arch)"
    and "1 \<le> trafficLevel (scope arch)"
  shows "(\<exists>r1 r2. generate_report cc arch ''eu-north-1'' uid = Inr r1
            \<and> generate_report cc arch ''ap-south-1'' uid = Inr r2
            \<and> carbon_intensity (metrics r1) = 8 \<and> carbon_intensity (metrics r2) = 708
            \<and> m_carbon_kg (metrics r1) < m_carbon_kg (metrics r2))
       \<and> (\<forall>reg reg' r r'.
             generate_report cc arch reg uid = Inr r \<longrightarrow>
             generate_report cc arch reg' uid = Inr r' \<longrightarrow>
             carbon_intensity (metrics r) \<le> carbon_intensity (metrics r') \<longrightarrow>
             m_carbon_kg (metrics r) \<le> m_carbon_kg (metrics r'))"
proof -
  from report_carbon [OF assms(2,3), of cc uid] obtain E where
    EL: "3 / 10 * real (length (nodes arch)) \<le> E" and
    R: "\<And>reg. \<exists>r. generate_report cc arch reg uid = Inr r
               \<and> carbon_intensity (metrics r) = intensity_of reg
               \<and> m_carbon_kg (metrics r) = py_round (E * intensity_of reg / 1000) 4"
    by blast
  from assms(1) have "1 \<le> real (length (nodes arch))"
    by (cases "nodes arch") simp_all
  with EL have E: "3 / 10 \<le> E" by simp
  from R [of "''eu-north-1''"] obtain r1 where
    r1: "generate_report cc arch ''eu-north-1'' uid = Inr r1"
        "carbon_intensity (metrics r1) = 8"
        "m_carbon_kg (metrics r1) = py_round (E * 8 / 1000) 4"
    by (auto simp: intensity_of_def region_intensity)
  from R [of "''ap-south-1''"] obtain r2 where
    r2: "generate_report cc arch ''ap-south-1'' uid = Inr r2"
        "carbon_intensity (metrics r2) = 708"
        "m_carbon_kg (metrics r2) = py_round (E * 708 / 1000) 4"
    by (auto simp: intensity_of_def region_intensity)
  have "py_round (E * 8 / 1000) 4 \<le> E * 8 / 1000 + 1 / (2 * 10 ^ 4)"
    using py_round_close [of "E * 8 / 1000" 4] by linarith
  moreover have "E * 708 / 1000 - 1 / (2 * 10 ^ 4) \<le> py_round (E * 708 / 1000) 4"
    using py_round_close [of "E * 708 / 1000" 4] by linarith
  moreover have "E * 8 / 1000 + 1 / (2 * 10 ^ 4) < E * 708 / 1000 - 1 / (2 * 10 ^ 4)"
    using E by simp
  ultimately have lt: "m_carbon_kg (metrics r1) < m_carbon_kg (metrics r2)"
    using r1(3) r2(3) by linarith
  have mono: "m_carbon_kg (metrics r) \<le> m_carbon_kg (metrics r')"
    if a: "generate_report cc arch reg uid = Inr r"
      and b: "generate_report cc arch reg' uid = Inr r'"
      and c: "carbon_intensity (metrics r) \<le> carbon_intensity (metrics r')"
    for reg reg' r r'
  proof -
    from R [of reg] a have 1: "carbon_intensity (metrics r) = intensity_of reg"
      "m_carbon_kg (metrics r) = py_round (E * intensity_of reg / 1000) 4" by auto
    from R [of reg'] b have 2: "carbon_intensity (metrics r') = intensity_of reg'"
      "m_carbon_kg (metrics r') = py_round (E * intensity_of reg' / 1000) 4" by auto
    from c 1(1) 2(1) have "intensity_of reg \<le> intensity_of reg'" by simp
    with E have "E * intensity_of reg / 1000 \<le> E * intensity_of reg' / 1000"
      by (simp add: mult_left_mono)
    then show ?thesis
      unfolding 1(2) 2(2) by (rule py_round_mono)
  qed
  from r1(1,2) r2(1,2) lt mono show ?thesis by blast
qed

theorem greener_region_lower_carbon_witness:
  "nodes sample_arch \<noteq> [] \<and> 0 \<le> users (scope sample_arch)
   \<and> 1 \<le> trafficLevel (scope sample_arch)
   \<and> (\<exists>r1 r2. generate_report sample_costs sample_arch ''eu-north-1'' None = Inr r1
         \<and> generate_report sample_costs sample_arch ''ap-south-1'' None = Inr r2
         \<and> carbon_intensity (metrics r1) = 8 \<and> carbon_intensity (metrics r2) = 708
         \<and> m_carbon_kg (metrics r1) < m_carbon_kg (metrics r2))"
proof -
  have a: "nodes sample_arch \<noteq> []"
    by (simp add: sample_arch_def sample_nodes_def)
  have b: "0 \<le> users (scope sample_arch)"
    by (simp add: sample_arch_def sample_scope_def)
  have c: "1 \<le> trafficLevel (scope sample_arch)"
    by (simp add: sample_arch_def sample_scope_def)
  from greener_region_lower_carbon [OF a b c, of sample_costs None]
  have "\<exists>r1 r2. generate_report sample_costs sample_arch ''eu-north-1'' None = Inr r1
         \<and> generate_report sample_costs sample_arch ''ap-south-1'' None = Inr r2
         \<and> carbon_intensity (metrics r1) = 8 \<and> carbon_intensity (metrics r2) = 708
         \<and> m_carbon_kg (metrics r1) < m_carbon_kg (metrics r2)"
    by (rule conjunct1)
  with a b c show ?thesis by (intro conjI)
qed

section \<open>Defaults of the scope\<close>

text \<open>
  Claim C8, as the code has it.  Every field of \<^verbatim>\<open>Scope\<close> has a default: when the
  traffic level is omitted or lies between 1 and 5, construction succeeds, each field
  the caller supplies is kept, and each omitted field takes its default (users 1000,
  trafficLevel 3, dataVolumeGB 100.0, regions 1, availability 99.9).
\<close>

theorem scope_defaults:
  "t = None \<or> (\<exists>lvl. t = Some lvl \<and> 1 \<le> lvl \<and> lvl \<le> 5) \<Longrightarrow>
   Scope_init u t d r a =
     Inr \<lparr>users = (case u of None \<Rightarrow> 1000 | Some v \<Rightarrow> v),
          trafficLevel = (case t of None \<Rightarrow> 3 | Some v \<Rightarrow> v),
          dataVolumeGB = (case d of None \<Rightarrow> 100.0 | Some v \<Rightarrow> v),
          regions = (case r of None \<Rightarrow> 1 | Some v \<Rightarrow> v),
          availability = (case a of None \<Rightarrow> 99.9 | Some v \<Rightarrow> v)\<rparr>"
  by (auto simp: Scope_init_def)

theorem scope_defaults_witness:
  "Scope_init (Some 50000) None None (Some 2) None =
     Inr \<lparr>users = 50000, trafficLevel = 3, dataVolumeGB = 100.0, regions = 2,
          availability = 99.9\<rparr>
   \<and> Scope_init None (Some 5) (Some 2.5) None (Some 99.99) =
     Inr \<lparr>users = 1000, trafficLevel = 5, dataVolumeGB = 2.5, regions = 1,
          availability = 99.99\<rparr>"
proof -
  have "(None :: int option) = None \<or> (\<exists>lvl. (None :: int option) = Some lvl \<and> 1 \<le> lvl \<and> lvl \<le> 5)"
    by simp
  from scope_defaults [OF this, of "Some 50000" None "Some 2" None]
  have a: "Scope_init (Some 50000) None None (Some 2) None =
     Inr \<lparr>users = 50000, trafficLevel = 3, dataVolumeGB = 100.0, regions = 2,
          availability = 99.9\<rparr>"
    by simp
  have "Some (5::int) = None \<or> (\<exists>lvl. Some (5::int) = Some lvl \<and> 1 \<le> lvl \<and> lvl \<le> 5)"
    by simp
  from scope_defaults [OF this, of None "Some 2.5" None "Some 99.99"]
  have b: "Scope_init None (Some 5) (Some 2.5) None (Some 99.99) =
     Inr \<lparr>users = 1000, trafficLevel = 5, dataVolumeGB = 2.5, regions = 1,
          availability = 99.99\<rparr>"
    by simp
  from a b show ?thesis by (rule conjI)
qed

text \<open>
  The claim C8 as stated fails: a caller that supplies no field at all gets a scope,
  filled with the five defaults, and no error.
\<close>

theorem scope_required_counterexample:
  "Scope_init None None None None None =
     Inr \<lparr>users = 1000, trafficLevel = 3, dataVolumeGB = 100.0, regions = 1,
          availability = 99.9\<rparr>"
  by (simp add: Scope_init_def)

end
